theory Spec2Isabelle
  imports Main
begin

text \<open>
  The repository holds four Express servers that resolve a video URL with yt-dlp and stream
  the result to the browser.  Two handlers answer \<open>GET /api/video/download\<close>: one takes
  \<open>url\<close>, \<open>filename\<close> and \<open>quality\<close>, selects a format from the list that \<open>getVideoInfo\<close>
  returns and relays the source URL's bytes; the other takes \<open>videoUrl\<close>, \<open>itag\<close> and
  \<open>filename\<close> and forwards the standard output of a yt-dlp process, in one server with an
  entry per download in the table \<open>activeDownloads\<close>.  This theory embeds \<open>getVideoInfo\<close>,
  both handlers with their listeners, and the \<open>DELETE /api/downloads/:id\<close> endpoint, and
  proves what they do with a request.
\<close>

section \<open>JavaScript values\<close>

text \<open>
  The services are written in JavaScript, and the manifest that yt-dlp prints is JSON, so
  every field the code reads is a dynamically typed value.  Numbers are modelled as
  integers (heights, widths, sizes and format ranks; below \<open>10^21\<close> in absolute value, where
  JavaScript prints a number in plain decimal notation), strings as lists of 8-bit
  characters holding ASCII text.
\<close>

datatype jsval = JUndefined | JNull | JBool bool | JNum int | JStr string

text \<open>ToBoolean: what \<open>if (v)\<close>, \<open>!v\<close>, \<open>v || w\<close> and \<open>v ? a : b\<close> test.\<close>

fun truthy :: "jsval \<Rightarrow> bool" where
  "truthy JUndefined = False"
| "truthy JNull = False"
| "truthy (JBool b) = b"
| "truthy (JNum n) = (n \<noteq> 0)"
| "truthy (JStr s) = (s \<noteq> [])"

definition js_or :: "jsval \<Rightarrow> jsval \<Rightarrow> jsval" where
  "js_or a b = (if truthy a then a else b)"

function digits10 :: "nat \<Rightarrow> string" where
  "digits10 n =
     (if n < 10 then [''0123456789'' ! n]
      else digits10 (n div 10) @ [''0123456789'' ! (n mod 10)])"
  by pat_completeness auto
termination
  by (relation "measure id") auto

text \<open>ToString, as string concatenation (\<open>v + 'p'\<close>) and \<open>parseInt(v)\<close> apply it.\<close>

fun to_string :: "jsval \<Rightarrow> string" where
  "to_string JUndefined = ''undefined''"
| "to_string JNull = ''null''"
| "to_string (JBool b) = (if b then ''true'' else ''false'')"
| "to_string (JNum n) = (if n < 0 then CHR ''-'' # digits10 (nat (- n)) else digits10 (nat n))"
| "to_string (JStr s) = s"

subsection \<open>parseInt\<close>

definition is_space :: "char \<Rightarrow> bool" where
  "is_space c = (c \<in> set [CHR 0x09, CHR 0x0A, CHR 0x0B, CHR 0x0C, CHR 0x0D, CHR 0x20])"

definition digit_val :: "char \<Rightarrow> nat option" where
  "digit_val c =
     (let k = (of_char c :: nat) in
      if 48 \<le> k \<and> k \<le> 57 then Some (k - 48)
      else if 97 \<le> k \<and> k \<le> 122 then Some (k - 87)
      else if 65 \<le> k \<and> k \<le> 90 then Some (k - 55)
      else None)"

fun radix_digits :: "nat \<Rightarrow> string \<Rightarrow> nat list" where
  "radix_digits R [] = []"
| "radix_digits R (c # cs) =
     (case digit_val c of
        None \<Rightarrow> []
      | Some d \<Rightarrow> if d < R then d # radix_digits R cs else [])"

definition digits_value :: "nat \<Rightarrow> nat list \<Rightarrow> nat" where
  "digits_value R ds = foldl (\<lambda>acc d. acc * R + d) 0 ds"

fun strip_sign :: "string \<Rightarrow> bool \<times> string" where
  "strip_sign [] = (False, [])"
| "strip_sign (c # cs) =
     (if c = CHR ''-'' then (True, cs) else if c = CHR ''+'' then (False, cs) else (False, c # cs))"

fun strip_hex_prefix :: "string \<Rightarrow> nat \<times> string" where
  "strip_hex_prefix (a # b # cs) =
     (if a = CHR ''0'' \<and> (b = CHR ''x'' \<or> b = CHR ''X'') then (16, cs) else (10, a # b # cs))"
| "strip_hex_prefix cs = (10, cs)"

text \<open>
  \<open>parseInt(v)\<close> with no radix argument: the argument is converted to a string, leading
  white space and a sign are removed, a \<open>0x\<close> prefix selects radix 16, and the longest
  prefix of digits is read.  \<open>None\<close> is NaN (no digit at all).
\<close>

definition parseInt :: "jsval \<Rightarrow> int option" where
  "parseInt v =
     (let (neg, s) = strip_sign (dropWhile is_space (to_string v));
          (R, t) = strip_hex_prefix s;
          ds = radix_digits R t
      in if ds = [] then None
         else Some ((if neg then - 1 else 1) * int (digits_value R ds)))"

text \<open>\<open>parseInt(v) || 0\<close>: NaN and zero are both falsy.\<close>

definition parseInt_or_0 :: "jsval \<Rightarrow> int" where
  "parseInt_or_0 v = (case parseInt v of None \<Rightarrow> 0 | Some n \<Rightarrow> if n = 0 then 0 else n)"

subsection \<open>Array.prototype.sort\<close>

text \<open>
  \<open>xs.sort(cmp)\<close> is a stable sort: \<open>a\<close> goes before \<open>b\<close> when \<open>cmp(a, b) < 0\<close>, after it
  when \<open>cmp(a, b) > 0\<close>, and elements that compare equal keep their order.  For a consistent
  comparator every conforming engine returns the list this insertion sort returns.
\<close>

fun sort_insert :: "('a \<Rightarrow> 'a \<Rightarrow> int) \<Rightarrow> 'a \<Rightarrow> 'a list \<Rightarrow> 'a list" where
  "sort_insert cmp x [] = [x]"
| "sort_insert cmp x (y # ys) =
     (if cmp x y \<le> 0 then x # y # ys else y # sort_insert cmp x ys)"

definition array_sort :: "('a \<Rightarrow> 'a \<Rightarrow> int) \<Rightarrow> 'a list \<Rightarrow> 'a list" where
  "array_sort cmp xs = foldr (sort_insert cmp) xs []"

section \<open>Strings\<close>

text \<open>\<open>s.startsWith(n)\<close> and \<open>s.includes(n)\<close>.\<close>

fun startsWith :: "string \<Rightarrow> string \<Rightarrow> bool" where
  "startsWith s [] = True"
| "startsWith [] (n # ns) = False"
| "startsWith (c # cs) (n # ns) = (c = n \<and> startsWith cs ns)"

fun str_includes :: "string \<Rightarrow> string \<Rightarrow> bool" where
  "str_includes [] n = (n = [])"
| "str_includes (c # cs) n = (startsWith (c # cs) n \<or> str_includes cs n)"

subsection \<open>decodeURIComponent and encodeURIComponent\<close>

text \<open>
  \<open>decodeURIComponent\<close> after ECMAScript's Decode with an empty reserved set, on strings held
  as UTF-8 bytes: every \<open>%XX\<close> is read as one octet; an octet below 128 is that character; a
  leading octet of an n-byte sequence must be followed by \<open>n - 1\<close> escaped continuation octets
  that together encode a code point (no overlong form, no surrogate, at most U+10FFFF).
  Anything else throws \<open>URIError\<close>, here \<open>None\<close>.
\<close>

datatype uri_token = Raw char | Enc nat

definition hex_pair :: "char \<Rightarrow> char \<Rightarrow> nat option" where
  "hex_pair a b =
     (case (digit_val a, digit_val b) of
        (Some x, Some y) \<Rightarrow> if x < 16 \<and> y < 16 then Some (16 * x + y) else None
      | _ \<Rightarrow> None)"

fun uri_tokens :: "string \<Rightarrow> uri_token list option" where
  "uri_tokens [] = Some []"
| "uri_tokens (c # cs) =
     (if c \<noteq> CHR ''%'' then map_option (Cons (Raw c)) (uri_tokens cs)
      else (case cs of
              a # b # rest \<Rightarrow>
                (case hex_pair a b of
                   None \<Rightarrow> None
                 | Some v \<Rightarrow> map_option (Cons (Enc v)) (uri_tokens rest))
            | _ \<Rightarrow> None))"

definition utf8_length :: "nat \<Rightarrow> nat" where
  "utf8_length b = (if b < 128 then 1 else if b < 192 then 0 else if b < 224 then 2
                    else if b < 240 then 3 else if b < 248 then 4 else 0)"

fun continuation :: "uri_token \<Rightarrow> nat option" where
  "continuation (Enc v) = (if 128 \<le> v \<and> v < 192 then Some (v - 128) else None)"
| "continuation (Raw c) = None"

definition code_point :: "nat \<Rightarrow> nat list \<Rightarrow> nat" where
  "code_point b ks = foldl (\<lambda>acc k. acc * 64 + k) (b mod 2 ^ (7 - Suc (length ks))) ks"

definition valid_code_point :: "nat \<Rightarrow> nat \<Rightarrow> bool" where
  "valid_code_point n v =
     (if n = 2 then 128 \<le> v
      else if n = 3 then 2048 \<le> v \<and> \<not> (55296 \<le> v \<and> v \<le> 57343)
      else 65536 \<le> v \<and> v \<le> 1114111)"

function decode_tokens :: "uri_token list \<Rightarrow> string option" where
  "decode_tokens [] = Some []"
| "decode_tokens (Raw c # ts) = map_option (Cons c) (decode_tokens ts)"
| "decode_tokens (Enc b # ts) =
     (let n = utf8_length b in
      if n = 1 then map_option (Cons (char_of b)) (decode_tokens ts)
      else if n = 0 \<or> length ts < n - 1 then None
      else (case those (map continuation (take (n - 1) ts)) of
              None \<Rightarrow> None
            | Some ks \<Rightarrow>
                if valid_code_point n (code_point b ks)
                then map_option (\<lambda>r. char_of b # map (\<lambda>k. char_of (128 + k)) ks @ r)
                       (decode_tokens (drop (n - 1) ts))
                else None))"
  by pat_completeness auto
termination
  by (relation "measure length") auto

definition decodeURIComponent :: "string \<Rightarrow> string option" where
  "decodeURIComponent s = (case uri_tokens s of None \<Rightarrow> None | Some ts \<Rightarrow> decode_tokens ts)"

text \<open>
  \<open>encodeURIComponent\<close>: letters, digits and \<open>- _ . ! ~ * ' ( )\<close> stay, every other byte
  becomes \<open>%XX\<close> in upper-case hexadecimal.
\<close>

definition unreserved :: "char \<Rightarrow> bool" where
  "unreserved c =
     (let k = (of_char c :: nat) in
      (48 \<le> k \<and> k \<le> 57) \<or> (65 \<le> k \<and> k \<le> 90) \<or> (97 \<le> k \<and> k \<le> 122)
      \<or> c \<in> set [CHR ''-'', CHR ''_'', CHR ''.'', CHR ''!'', CHR ''~'', CHR ''*'', CHR 0x27,
                    CHR ''('', CHR '')''])"

definition percent_encode :: "char \<Rightarrow> string" where
  "percent_encode c =
     (let k = (of_char c :: nat) in
      [CHR ''%'', ''0123456789ABCDEF'' ! (k div 16), ''0123456789ABCDEF'' ! (k mod 16)])"

definition encodeURIComponent :: "string \<Rightarrow> string" where
  "encodeURIComponent s = concat (map (\<lambda>c. if unreserved c then [c] else percent_encode c) s)"

subsection \<open>sanitizeFilename\<close>

text \<open>
  \<^verbatim>\<open>
  function sanitizeFilename(filename) {
      return filename.replace(/[<>:"/\\|?*]/g, '_').replace(/\s+/g, '_').substring(0, 100);
  }
  \<close>
  The copy in the server of the fixed itag handler cuts at 200 characters instead of 100.
  Characters are counted and white space is recognised as for ASCII text.
\<close>

function collapse_spaces :: "string \<Rightarrow> string" where
  "collapse_spaces [] = []"
| "collapse_spaces (c # cs) =
     (if is_space c then CHR ''_'' # collapse_spaces (dropWhile is_space cs)
      else c # collapse_spaces cs)"
  by pat_completeness auto
termination
  by (relation "measure length") (auto simp: length_dropWhile_le less_Suc_eq_le)

definition sanitize_upto :: "nat \<Rightarrow> string \<Rightarrow> string" where
  "sanitize_upto n filename =
     take n (collapse_spaces
       (map (\<lambda>c. if c \<in> set [CHR ''<'', CHR ''>'', CHR '':'', CHR 0x22, CHR ''/'', CHR 0x5C,
                              CHR ''|'', CHR ''?'', CHR ''*'']
                  then CHR ''_'' else c) filename))"

definition sanitizeFilename :: "string \<Rightarrow> string" where
  "sanitizeFilename filename = sanitize_upto 100 filename"

section \<open>Metadata resolution: getVideoInfo\<close>

text \<open>One entry of \<open>result.formats\<close> in the JSON that yt-dlp dumps; only the fields the code reads.\<close>

record ytformat =
  format_id :: jsval
  yt_url :: jsval
  vcodec :: jsval
  acodec :: jsval
  yt_quality :: jsval
  height :: jsval
  width :: jsval
  ext :: jsval
  tbr :: jsval
  abr :: jsval
  yt_filesize :: jsval
  yt_fps :: jsval

text \<open>
  The format descriptor that \<open>getVideoInfo\<close> builds.  The two fields computed in floating
  point (\<open>filesizeFormatted\<close>, \<open>approxDurationMs\<close>) are display text that no handler reads;
  they are left out.
\<close>

record format =
  itag :: jsval
  quality :: jsval
  container :: jsval
  hasVideo :: bool
  hasAudio :: bool
  videoCodec :: jsval
  audioCodec :: jsval
  bitrate :: jsval
  filesize :: jsval
  fps :: jsval
  url :: jsval
  directUrl :: jsval

record manifest =
  yt_id :: jsval
  yt_title :: jsval
  yt_thumbnail :: jsval
  yt_uploader :: jsval
  yt_formats :: "ytformat list option"

text \<open>The outcome of \<open>await youtubedl(videoUrl, {dumpJson: true, ...})\<close>: it rejects or it resolves.\<close>

datatype ytdlp_outcome = YtRejects string | YtResolves manifest

record videoInfo =
  videoId :: jsval
  title :: jsval
  thumbnail :: jsval
  author :: jsval
  formats :: "format list"

text \<open>\<open>format.url && (format.vcodec !== 'none' || format.acodec !== 'none')\<close>\<close>

definition keep_format :: "ytformat \<Rightarrow> bool" where
  "keep_format f = (truthy (yt_url f) \<and> (vcodec f \<noteq> JStr ''none'' \<or> acodec f \<noteq> JStr ''none''))"

text \<open>
  \<open>format.quality || (format.height ? format.height + 'p' :
     format.width ? format.width + 'x' + format.height : 'unknown')\<close>
\<close>

definition quality_label :: "ytformat \<Rightarrow> jsval" where
  "quality_label f =
     (if truthy (yt_quality f) then yt_quality f
      else if truthy (height f) then JStr (to_string (height f) @ ''p'')
      else if truthy (width f) then JStr (to_string (width f) @ ''x'' @ to_string (height f))
      else JStr ''unknown'')"

definition describe_format :: "ytformat \<Rightarrow> format" where
  "describe_format f =
     \<lparr> itag = format_id f,
       quality = quality_label f,
       container = ext f,
       hasVideo = (vcodec f \<noteq> JStr ''none''),
       hasAudio = (acodec f \<noteq> JStr ''none''),
       videoCodec = vcodec f,
       audioCodec = acodec f,
       bitrate = js_or (tbr f) (js_or (abr f) (JNum 0)),
       filesize = yt_filesize f,
       fps = yt_fps f,
       url = yt_url f,
       directUrl = yt_url f \<rparr>"

text \<open>
  The sort comparator: \<open>aHeight = parseInt(a.quality) || 0\<close>, \<open>bHeight\<close> likewise, and the
  result \<open>bHeight - aHeight\<close>.
\<close>

definition qheight :: "format \<Rightarrow> int" where
  "qheight a = parseInt_or_0 (quality a)"

definition compare_quality :: "format \<Rightarrow> format \<Rightarrow> int" where
  "compare_quality a b = qheight b - qheight a"

text \<open>
  \<open>getVideoInfo\<close>: any exception (yt-dlp rejecting, \<open>result.formats\<close> missing) is caught and
  rethrown as \<open>Error('Failed to get video info: ' + message)\<close>.
\<close>

datatype resolve_error = Failed_to_get_video_info string

definition getVideoInfo :: "ytdlp_outcome \<Rightarrow> resolve_error + videoInfo" where
  "getVideoInfo outcome =
     (case outcome of
        YtRejects msg \<Rightarrow> Inl (Failed_to_get_video_info msg)
      | YtResolves result \<Rightarrow>
          (case yt_formats result of
             None \<Rightarrow> Inl (Failed_to_get_video_info ''Cannot read properties of undefined'')
           | Some fs \<Rightarrow>
               Inr \<lparr> videoId = yt_id result,
                     title = yt_title result,
                     thumbnail = yt_thumbnail result,
                     author = yt_uploader result,
                     formats = array_sort compare_quality (map describe_format (filter keep_format fs)) \<rparr>))"

section \<open>Format selection in the url/quality download handler\<close>

text \<open>
  A query parameter as Express hands it to the handler: absent (\<open>undefined\<close>) or a string.
  \<open>if (quality)\<close>, \<open>!url\<close>, \<open>filename || ...\<close> test it; the empty string is falsy.
\<close>

definition param_given :: "string option \<Rightarrow> bool" where
  "param_given p = (case p of None \<Rightarrow> False | Some s \<Rightarrow> s \<noteq> [])"

text \<open>\<open>f.itag === quality || f.quality === quality\<close>, with \<open>quality\<close> the selector string.\<close>

definition selector_match :: "string \<Rightarrow> format \<Rightarrow> bool" where
  "selector_match q f = (itag f = JStr q \<or> quality f = JStr q)"

text \<open>
  The handler's selection:
  \<^verbatim>\<open>
  let selectedFormat;
  if (quality) {
      selectedFormat = videoInfo.formats.find(f => f.itag === quality || f.quality === quality);
  }
  if (!selectedFormat) {
      selectedFormat = videoInfo.formats.find(f => f.hasVideo && f.hasAudio) || videoInfo.formats[0];
  }
  \<close>
  \<open>None\<close> is \<open>undefined\<close> (\<open>find\<close> found nothing and the list has no element 0).
\<close>

definition selectFormat :: "string option \<Rightarrow> format list \<Rightarrow> format option" where
  "selectFormat qual fs =
     (let selectedFormat =
            (case qual of
               None \<Rightarrow> None
             | Some q \<Rightarrow> if q \<noteq> [] then find (selector_match q) fs else None)
      in case selectedFormat of
           Some f \<Rightarrow> Some f
         | None \<Rightarrow>
             (case find (\<lambda>f. hasVideo f \<and> hasAudio f) fs of
                Some f \<Rightarrow> Some f
              | None \<Rightarrow> (case fs of [] \<Rightarrow> None | f # _ \<Rightarrow> Some f)))"

text \<open>\<open>if (!selectedFormat || !selectedFormat.url)\<close>: the branch that answers 404.\<close>

definition no_downloadable_format :: "string option \<Rightarrow> format list \<Rightarrow> bool" where
  "no_downloadable_format qual fs =
     (case selectFormat qual fs of None \<Rightarrow> True | Some f \<Rightarrow> \<not> truthy (url f))"

text \<open>
  The selection policy in the words of the specification, for comparison with the code: an
  exact match on the format identifier first; else an exact match on the quality label; else
  the first format with both audio and video; else the first format of the list.
\<close>

definition spec_selectFormat :: "string option \<Rightarrow> format list \<Rightarrow> format option" where
  "spec_selectFormat qual fs =
     (let supplied = param_given qual; q = (case qual of None \<Rightarrow> [] | Some s \<Rightarrow> s) in
      case (if supplied then find (\<lambda>f. itag f = JStr q) fs else None) of
        Some f \<Rightarrow> Some f
      | None \<Rightarrow>
          (case (if supplied then find (\<lambda>f. quality f = JStr q) fs else None) of
             Some f \<Rightarrow> Some f
           | None \<Rightarrow>
               (case find (\<lambda>f. hasVideo f \<and> hasAudio f) fs of
                  Some f \<Rightarrow> Some f
                | None \<Rightarrow> (case fs of [] \<Rightarrow> None | f # _ \<Rightarrow> Some f))))"

text \<open>\<open>x\<close> is the first element of \<open>xs\<close>, in list order, that satisfies \<open>P\<close>.\<close>

definition first_such :: "('a \<Rightarrow> bool) \<Rightarrow> 'a list \<Rightarrow> 'a \<Rightarrow> bool" where
  "first_such P xs x = (\<exists>i < length xs. xs ! i = x \<and> P x \<and> (\<forall>j < i. \<not> P (xs ! j)))"

section \<open>The url/quality download handler\<close>

text \<open>
  \<open>GET /api/video/download?url=&filename=&quality=\<close> of \<open>index.js\<close> (first server) and of
  the EJS server.  The handler talks to two collaborators: yt-dlp, through \<open>getVideoInfo\<close>, and
  the upstream HTTP server, through \<open>client.get\<close>.  Both are parameters of the model, and
  every call the handler makes is recorded in the order it is made.
\<close>

record request =
  query_url :: "string option"
  query_filename :: "string option"
  query_quality :: "string option"
  query_videoUrl :: "string option"
  query_itag :: "string option"

record upstream_response =
  statusCode :: nat
  content_type :: "string option"
  content_length :: "string option"
  chunks :: "string list"
  ends :: bool

text \<open>
  What \<open>client.get(url, ..., callback)\<close> does: it throws at once (a URL or protocol that
  Node refuses), the request emits \<open>error\<close> before any response, or the callback runs with a
  response whose body arrives as \<open>data\<close> events, followed by \<open>end\<close> when \<open>ends\<close> holds; with
  \<open>ends\<close> false the source breaks off after the chunks listed.
\<close>

datatype upstream = GetThrows string | RequestError string | Responds upstream_response


text \<open>
  The collaborators.  \<open>validateURL\<close> is \<open>ytdl.validateURL\<close> (it accepts a URL of a YouTube host
  that names a video id of eleven characters); \<open>search_v\<close> is
  \<open>new URL(videoUrl).searchParams.get('v')\<close>, which throws (\<open>None\<close>) on a string that is
  not a URL and yields \<open>null\<close> (\<open>Some None\<close>) when the URL has no parameter \<open>v\<close>.
\<close>

record env =
  youtubedl :: "string \<Rightarrow> ytdlp_outcome"
  client_get :: "string \<Rightarrow> upstream"
  validateURL :: "string \<Rightarrow> bool"
  search_v :: "string \<Rightarrow> string option option"

datatype effect =
    Resolve string
  | HttpGet bool string
  | Spawn string string

text \<open>
  What the client receives: a JSON error object, a text sent with \<open>res.send\<close>, or the chunks
  written while relaying, with whether the response was ended.  \<open>res_headers\<close> holds the
  headers the handler sets itself with \<open>setHeader\<close> or \<open>header\<close>.
\<close>

datatype payload = Json string | Sent string | Message string | Relayed "string list" bool

record response =
  res_status :: nat
  res_headers :: "string \<rightharpoonup> string"
  res_body :: payload

definition answer :: "nat \<Rightarrow> (string \<rightharpoonup> string) \<Rightarrow> payload \<Rightarrow> response" where
  "answer code hs b = \<lparr> res_status = code, res_headers = hs, res_body = b \<rparr>"

text \<open>
  \<open>response.pipe(res)\<close>: every chunk read from the source is written to the destination as it
  arrives, and the destination is ended when the source ends.  The handler's own \<open>data\<close>
  listener only adds \<open>chunk.length\<close> to \<open>downloadedBytes\<close>.
\<close>

record relay_state =
  downloadedBytes :: nat
  written :: "string list"
  ended :: bool

definition relay_start :: relay_state where
  "relay_start = \<lparr> downloadedBytes = 0, written = [], ended = False \<rparr>"

definition pipe_data :: "relay_state \<Rightarrow> string \<Rightarrow> relay_state" where
  "pipe_data st chunk =
     st \<lparr> downloadedBytes := downloadedBytes st + length chunk, written := written st @ [chunk] \<rparr>"

definition pipe :: "string list \<Rightarrow> bool \<Rightarrow> relay_state" where
  "pipe cs e = (foldl pipe_data relay_start cs) \<lparr> ended := e \<rparr>"

text \<open>
  The \<open>try\<close> block of the YouTube branch.  \<open>Inl\<close> is the response of an early \<open>return\<close>;
  \<open>Inr\<close> carries the source URL and the file name the handler goes on with.  A title or a
  source URL that is not a string makes \<open>sanitizeFilename\<close> or \<open>url.substring\<close> throw a
  TypeError, which the \<open>catch\<close> of the block answers like a failed lookup.
\<close>

definition resolve_youtube ::
  "ytdlp_outcome \<Rightarrow> string option \<Rightarrow> string option \<Rightarrow> response + (string \<times> string option)" where
  "resolve_youtube outcome qual fname =
     (case getVideoInfo outcome of
        Inl e \<Rightarrow> Inl (answer 500 Map.empty (Json ''Failed to get video information''))
      | Inr info \<Rightarrow>
          (case selectFormat qual (formats info) of
             None \<Rightarrow> Inl (answer 404 Map.empty (Json ''No downloadable format found''))
           | Some f \<Rightarrow>
               if \<not> truthy (url f)
               then Inl (answer 404 Map.empty (Json ''No downloadable format found''))
               else
                 (case (if param_given fname then Some fname
                        else (case title info of
                                JStr t \<Rightarrow>
                                  Some (Some (sanitizeFilename t @ ''.''
                                               @ to_string (js_or (container f) (JStr ''mp4''))))
                              | _ \<Rightarrow> None)) of
                    None \<Rightarrow> Inl (answer 500 Map.empty (Json ''Failed to get video information''))
                  | Some fname' \<Rightarrow>
                      (case url f of
                         JStr u \<Rightarrow> Inr (u, fname')
                       | _ \<Rightarrow> Inl (answer 500 Map.empty (Json ''Failed to get video information''))))))"

text \<open>\<open>encodeURIComponent(filename).replace(/['"]/g, '')\<close>\<close>

definition safe_filename :: "string \<Rightarrow> string" where
  "safe_filename filename =
     filter (\<lambda>c. c \<noteq> CHR 0x27 \<and> c \<noteq> CHR 0x22) (encodeURIComponent filename)"

definition content_disposition :: "string \<Rightarrow> string" where
  "content_disposition safe =
     ''attachment; filename='' @ [CHR 0x22] @ safe @ [CHR 0x22] @ ''; filename*=UTF-8''
       @ [CHR 0x27, CHR 0x27] @ safe"

definition download_headers :: "string \<Rightarrow> (string \<rightharpoonup> string)" where
  "download_headers safe =
     [''Content-Disposition'' \<mapsto> content_disposition safe,
      ''Content-Type'' \<mapsto> ''application/octet-stream'',
      ''Cache-Control'' \<mapsto> ''no-cache, no-store, must-revalidate'',
      ''Pragma'' \<mapsto> ''no-cache'',
      ''Expires'' \<mapsto> ''0'']"

text \<open>
  \<open>if (response.headers['content-type']) res.setHeader('Content-Type', ...)\<close> and the same for
  \<open>content-length\<close>.
\<close>

definition copy_header ::
  "string \<Rightarrow> string option \<Rightarrow> (string \<rightharpoonup> string) \<Rightarrow> (string \<rightharpoonup> string)" where
  "copy_header name v hs = (if param_given v then hs(name \<mapsto> the v) else hs)"

text \<open>
  From \<open>filename = filename || "download.mp4"\<close> to the end of the handler: the headers, the
  request to the source URL, and the relay of its response.
\<close>

definition relay :: "env \<Rightarrow> string \<Rightarrow> string option \<Rightarrow> effect list \<Rightarrow> response \<times> effect list" where
  "relay e u fname effs =
     (let filename = (if param_given fname then the fname else ''download.mp4'');
          hs = download_headers (safe_filename filename);
          effs' = effs @ [HttpGet (startsWith u ''https'') u]
      in case client_get e u of
           GetThrows msg \<Rightarrow> (answer 500 hs (Json (''Download error: '' @ msg)), effs')
         | RequestError msg \<Rightarrow> (answer 500 hs (Sent ''Download stream error''), effs')
         | Responds r \<Rightarrow>
             if statusCode r \<ge> 400
             then (answer 500 hs (Sent ''YouTube rejected the download request''), effs')
             else (answer 200
                     (copy_header ''Content-Length'' (content_length r)
                        (copy_header ''Content-Type'' (content_type r) hs))
                     (let st = pipe (chunks r) (ends r) in Relayed (written st) (ended st)),
                   effs'))"

definition is_youtube :: "string \<Rightarrow> bool" where
  "is_youtube u = (str_includes u ''youtube.com'' \<or> str_includes u ''youtu.be'')"

definition download :: "env \<Rightarrow> request \<Rightarrow> response \<times> effect list" where
  "download e req =
     (if \<not> param_given (query_url req)
      then (answer 400 Map.empty (Json ''Missing URL''), [])
      else
        (case decodeURIComponent (the (query_url req)) of
           None \<Rightarrow> (answer 500 Map.empty (Json ''Download error: URI malformed''), [])
         | Some u \<Rightarrow>
             if is_youtube u
             then (case resolve_youtube (youtubedl e u) (query_quality req) (query_filename req) of
                     Inl r \<Rightarrow> (r, [Resolve u])
                   | Inr (u', fname) \<Rightarrow> relay e u' fname [Resolve u])
             else relay e u (query_filename req) []))"

section \<open>The videoUrl/itag download handlers\<close>

text \<open>
  \<open>GET /api/video/download?videoUrl=&itag=&filename=\<close> exists twice: in \<open>index.js\<close> (second
  server), where every download is entered in the table \<open>activeDownloads\<close>, and in the server
  whose handler is marked "FIXED VERSION", which keeps no table entry.  Both look the
  requested format up in yt-dlp's manifest, start \<open>yt-dlp\<close> with its output on stdout, and
  forward what the process prints.
\<close>

definition to_lower :: "char \<Rightarrow> char" where
  "to_lower c =
     (case map_of (zip ''ABCDEFGHIJKLMNOPQRSTUVWXYZ'' ''abcdefghijklmnopqrstuvwxyz'') c of
        Some l \<Rightarrow> l
      | None \<Rightarrow> c)"

definition endsWith :: "string \<Rightarrow> string \<Rightarrow> bool" where
  "endsWith s suffix = startsWith (rev s) (rev suffix)"

text \<open>\<open>videoUrl.split('/').pop()\<close>: what follows the last slash.\<close>

definition last_segment :: "string \<Rightarrow> string" where
  "last_segment s = rev (takeWhile (\<lambda>c. c \<noteq> CHR ''/'') (rev s))"

text \<open>The tracking server's \<open>sanitizeFilename\<close>: \<open>filename.replace(/[^a-z0-9]/gi, '_').toLowerCase()\<close>.\<close>

definition sanitize_alnum :: "string \<Rightarrow> string" where
  "sanitize_alnum filename =
     map (\<lambda>c. let k = (of_char c :: nat) in
               if (48 \<le> k \<and> k \<le> 57) \<or> (65 \<le> k \<and> k \<le> 90) \<or> (97 \<le> k \<and> k \<le> 122)
               then to_lower c else CHR ''_'') filename"

text \<open>\<open>videoInfo.formats.find(f => f.format_id === itag.toString())\<close>\<close>

definition find_itag :: "string \<Rightarrow> ytformat list \<Rightarrow> ytformat option" where
  "find_itag i fs = find (\<lambda>f. format_id f = JStr i) fs"

text \<open>
  \<open>let downloadFilename = filename || sanitizeFilename(videoInfo.title)\<close>, then the extension
  \<open>format.ext || 'mp4'\<close> is appended unless the name already ends with it.  \<open>None\<close>: the
  title is not a string and \<open>sanitizeFilename\<close> throws.  The fixed handler compares the
  lower-cased name.
\<close>

definition download_filename ::
  "(string \<Rightarrow> string) \<Rightarrow> bool \<Rightarrow> string option \<Rightarrow> jsval \<Rightarrow> ytformat \<Rightarrow> string option" where
  "download_filename sanitize lower fname t f =
     (case (if param_given fname then fname
            else (case t of JStr x \<Rightarrow> Some (sanitize x) | _ \<Rightarrow> None)) of
        None \<Rightarrow> None
      | Some name \<Rightarrow>
          (let extension = ''.'' @ to_string (js_or (ext f) (JStr ''mp4'')) in
           if endsWith (if lower then map to_lower name else name) extension then Some name
           else Some (name @ extension)))"

definition content_type_for :: "jsval \<Rightarrow> string" where
  "content_type_for e =
     (if e = JStr ''mp4'' then ''video/mp4''
      else if e = JStr ''webm'' then ''video/webm''
      else if e = JStr ''mp3'' then ''audio/mpeg''
      else if e = JStr ''m4a'' then ''audio/mp4''
      else ''application/octet-stream'')"

text \<open>
  Node refuses a header value with a control character (\<open>res.setHeader\<close> throws
  \<open>ERR_INVALID_CHAR\<close>); for ASCII text that is every character below 32 except the tab, and 127.
  Bytes from 128 on are refused here as well, where Node accepts the characters U+0080 to
  U+00FF: file names are taken to be ASCII.
\<close>

definition header_value_ok :: "string \<Rightarrow> bool" where
  "header_value_ok v =
     list_all (\<lambda>c. let k = (of_char c :: nat) in k = 9 \<or> (32 \<le> k \<and> k \<le> 126)) v"

subsection \<open>The state of one download\<close>

text \<open>
  An entry of \<open>activeDownloads\<close>.  \<open>startedAt\<close> (a clock reading) and \<open>speed\<close> (a floating-point
  quotient) are left out; a field the code has not assigned yet is \<open>undefined\<close>.
\<close>

record entry =
  e_videoId :: string
  e_progress :: int
  status :: string
  e_title :: jsval
  e_totalSize :: jsval
  e_format :: jsval
  e_downloadedBytes :: "nat option"

text \<open>
  The variables the handler's closures share, the response, and the table.  \<open>listening\<close>
  says that the handler has reached the lines that register its listeners
  (\<open>childProcess.stdout.on\<close>, ..., \<open>req.on('close')\<close>, \<open>req.on('timeout')\<close>): an event emitted
  before that finds no listener.  \<open>signals\<close> counts the \<open>SIGTERM\<close>s sent with
  \<open>childProcess.kill\<close>, \<open>delete_timers\<close> the pending \<open>setTimeout(() => activeDownloads.delete(downloadId), 5000)\<close>.
\<close>

record session =
  downloadId :: string
  activeDownloads :: "string \<rightharpoonup> entry"
  listening :: bool
  spawned :: bool
  killed :: bool
  signals :: nat
  interval_on :: bool
  delete_timers :: nat
  total_size :: jsval
  stream :: relay_state
  headersSent :: bool
  out_headers :: "string \<rightharpoonup> string"
  reply :: "response option"

datatype event =
    StdoutData string bool
  | StdoutEnd bool
  | StderrData string
  | ProcClose "int option"
  | ProcError string
  | ReqClose
  | ReqTimeout
  | IntervalTick
  | DeleteTimerFires
  | CancelRequest string

text \<open>
  \<^verbatim>\<open>
  childProcess.stdout.on('data', (chunk) => {
      downloadedBytes += chunk.length;
      if (res.writable) { res.write(chunk); }
  });
  \<close>
  The flag of \<open>StdoutData\<close> and of \<open>StdoutEnd\<close> says whether the write or the end takes
  effect when the event is handled: \<open>res.writable\<close> holds and the response has not been
  destroyed.  (On a destroyed response Node can leave \<open>writable\<close> true; the write is then
  dropped and no header goes out, as for the flag \<open>False\<close>.)  \<open>written\<close> lists what
  \<open>res.write\<close> has accepted.
\<close>

definition on_data :: "string \<Rightarrow> bool \<Rightarrow> session \<Rightarrow> session" where
  "on_data chunk writable s =
     (let st = (stream s) \<lparr> downloadedBytes := downloadedBytes (stream s) + length chunk \<rparr> in
      if writable
      then s \<lparr> stream := st \<lparr> written := written st @ [chunk] \<rparr>, headersSent := True \<rparr>
      else s \<lparr> stream := st \<rparr>)"

definition res_end :: "session \<Rightarrow> session" where
  "res_end s = s \<lparr> stream := (stream s) \<lparr> ended := True \<rparr>, headersSent := True \<rparr>"

text \<open>\<open>if (!res.headersSent) res.status(500).json({ error: ... })\<close>\<close>

definition fail_unless_sent :: "string \<Rightarrow> session \<Rightarrow> session" where
  "fail_unless_sent msg s =
     (if headersSent s then s
      else s \<lparr> reply := Some (answer 500 (out_headers s) (Json msg)), headersSent := True \<rparr>)"

text \<open>\<open>if (childProcess && !childProcess.killed) childProcess.kill('SIGTERM')\<close>\<close>

definition kill_child :: "session \<Rightarrow> session" where
  "kill_child s =
     (if spawned s \<and> \<not> killed s then s \<lparr> killed := True, signals := Suc (signals s) \<rparr> else s)"

text \<open>The exit code inside a template literal: a number, or \<open>null\<close> when a signal ended the process.\<close>

definition code_text :: "int option \<Rightarrow> string" where
  "code_text code = (case code of None \<Rightarrow> ''null'' | Some c \<Rightarrow> to_string (JNum c))"

definition delete_entry :: "session \<Rightarrow> session" where
  "delete_entry s = s \<lparr> activeDownloads := (activeDownloads s)(downloadId s := None) \<rparr>"

text \<open>\<open>DELETE /api/downloads/:id\<close>, on the table alone.\<close>

definition cancel_download :: "string \<Rightarrow> (string \<rightharpoonup> entry) \<Rightarrow> response \<times> (string \<rightharpoonup> entry)" where
  "cancel_download i tab =
     (if i \<in> dom tab then (answer 200 Map.empty (Message ''Download cancelled''), tab(i := None))
      else (answer 404 Map.empty (Json ''Download not found''), tab))"

text \<open>
  The progress callback of \<open>setInterval\<close>:
  \<open>Math.min(100, Math.round(downloadedBytes / format.filesize * 100))\<close>, for a numeric file
  size (\<open>Math.round(x)\<close> is \<open>floor(x + 1/2)\<close>).  The quotient is exact here; the code's
  double can fall just below a half that the exact value reaches (23 of 40 gives 57 in the
  code, 58 here).
\<close>

definition on_tick :: "session \<Rightarrow> session" where
  "on_tick s =
     (case (activeDownloads s (downloadId s), total_size s) of
        (Some en, JNum f) \<Rightarrow>
          if interval_on s \<and> f \<noteq> 0
          then s \<lparr> activeDownloads := (activeDownloads s)(downloadId s \<mapsto>
                    en \<lparr> e_progress := min 100 ((200 * int (downloadedBytes (stream s)) + f) div (2 * f)),
                        e_downloadedBytes := Some (downloadedBytes (stream s)) \<rparr>) \<rparr>
          else s
      | _ \<Rightarrow> s)"

subsection \<open>The tracking handler (index.js, second server)\<close>

text \<open>
  The listeners of lines 928 to 995, one event at a time.  Before the handler has registered
  them, an event of the request or of the process changes nothing; the \<open>DELETE\<close> endpoint and
  the timer do not depend on this handler's listeners.
\<close>

fun on_event :: "event \<Rightarrow> session \<Rightarrow> session" where
  "on_event (CancelRequest i) s = s \<lparr> activeDownloads := snd (cancel_download i (activeDownloads s)) \<rparr>"
| "on_event DeleteTimerFires s =
     (if delete_timers s = 0 then s else delete_entry (s \<lparr> delete_timers := delete_timers s - 1 \<rparr>))"
| "on_event IntervalTick s = on_tick s"
| "on_event ev s =
     (if \<not> listening s then s
      else (case ev of
              StdoutData chunk writable \<Rightarrow> on_data chunk writable s
            | StdoutEnd writable \<Rightarrow>
                delete_entry ((if writable then res_end else id) (s \<lparr> interval_on := False \<rparr>))
            | StderrData msg \<Rightarrow> s
            | ProcClose code \<Rightarrow>
                (let s' = delete_entry (s \<lparr> interval_on := False \<rparr>) in
                 if code \<noteq> Some 0
                 then fail_unless_sent (''Download failed with code '' @ code_text code) s' else s')
            | ProcError msg \<Rightarrow>
                fail_unless_sent (''Download process error: '' @ msg)
                  (delete_entry (s \<lparr> interval_on := False \<rparr>))
            | ReqClose \<Rightarrow>
                (let s' = kill_child (s \<lparr> interval_on := False \<rparr>) in
                 case activeDownloads s' (downloadId s') of
                   None \<Rightarrow> s'
                 | Some en \<Rightarrow>
                     s' \<lparr> activeDownloads := (activeDownloads s')(downloadId s' \<mapsto> en \<lparr> status := ''cancelled'' \<rparr>),
                          delete_timers := Suc (delete_timers s') \<rparr>)
            | ReqTimeout \<Rightarrow> kill_child (s \<lparr> interval_on := False \<rparr>)
            | _ \<Rightarrow> s))"

definition run :: "event list \<Rightarrow> session \<Rightarrow> session" where
  "run evs s = foldl (\<lambda>st ev. on_event ev st) s evs"

definition fresh_session :: "string \<Rightarrow> (string \<rightharpoonup> entry) \<Rightarrow> session" where
  "fresh_session i tab =
     \<lparr> downloadId = i, activeDownloads = tab, listening = False, spawned = False, killed = False,
       signals = 0, interval_on = False, delete_timers = 0, total_size = JUndefined,
       stream = relay_start, headersSent = False, out_headers = Map.empty, reply = None \<rparr>"

text \<open>
  The \<open>catch\<close> block of the handler: the entry is deleted, the child is killed if there is
  one, and the client gets status 500 unless the headers are out.
\<close>

definition setup_failed :: "string \<Rightarrow> session \<Rightarrow> session" where
  "setup_failed msg s =
     fail_unless_sent (''Download failed: '' @ msg)
       (kill_child (delete_entry (s \<lparr> interval_on := False \<rparr>)))"

text \<open>
  The handler up to its first \<open>await\<close>: the parameter check, the new table entry under
  \<open>downloadId = Date.now().toString()\<close>, and the call of yt-dlp for the manifest.  \<open>now\<close> is the
  clock reading, \<open>tab\<close> the table when the request arrives.  A session whose \<open>reply\<close> is set
  has answered; \<open>new URL(videoUrl)\<close> throwing lands in the \<open>catch\<close> block, with \<open>downloadId\<close>
  assigned and no entry written.
\<close>

definition start_tracked :: "env \<Rightarrow> request \<Rightarrow> nat \<Rightarrow> (string \<rightharpoonup> entry) \<Rightarrow> session \<times> effect list" where
  "start_tracked e req now tab =
     (if \<not> param_given (query_videoUrl req) \<or> \<not> param_given (query_itag req)
      then ((fresh_session [] tab)
              \<lparr> reply := Some (answer 400 Map.empty (Json ''Video URL and format itag are required'')),
                headersSent := True \<rparr>, [])
      else
        (let videoUrl = the (query_videoUrl req); i = digits10 now in
         case search_v e videoUrl of
           None \<Rightarrow> (setup_failed ''Invalid URL'' (fresh_session i tab), [])
         | Some v \<Rightarrow>
             (fresh_session i
                (tab(i \<mapsto> \<lparr> e_videoId = (if param_given v then the v else last_segment videoUrl),
                           e_progress = 0, status = ''starting'', e_title = JUndefined,
                           e_totalSize = JUndefined, e_format = JUndefined,
                           e_downloadedBytes = None \<rparr>)),
              [Resolve videoUrl])))"

text \<open>
  The handler from the moment the manifest arrives (or yt-dlp fails) to the registration of
  the listeners.  The session is the one \<open>start_tracked\<close> made, as the events that arrived
  during the \<open>await\<close> left it.
\<close>

definition resume_tracked :: "ytdlp_outcome \<Rightarrow> request \<Rightarrow> session \<Rightarrow> session \<times> effect list" where
  "resume_tracked outcome req s =
     (case outcome of
        YtRejects msg \<Rightarrow> (setup_failed msg s, [])
      | YtResolves videoInfo \<Rightarrow>
          (case yt_formats videoInfo of
             None \<Rightarrow> (setup_failed ''Cannot read properties of undefined'' s, [])
           | Some fs \<Rightarrow>
               (case find_itag (the (query_itag req)) fs of
                  None \<Rightarrow>
                    ((delete_entry s) \<lparr> reply := Some (answer 400 Map.empty (Json ''Requested format not available'')),
                                        headersSent := True \<rparr>, [])
                | Some f \<Rightarrow>
                    (case download_filename sanitize_alnum False (query_filename req) (yt_title videoInfo) f of
                       None \<Rightarrow> (setup_failed ''filename.replace is not a function'' s, [])
                     | Some name \<Rightarrow>
                         (let disposition = ''attachment; filename='' @ [CHR 0x22] @ name @ [CHR 0x22] in
                          if \<not> header_value_ok disposition
                          then (setup_failed ''Invalid character in header content'' s, [])
                          else
                            (let s1 = s \<lparr> out_headers := (out_headers s)
                                                (''Content-Disposition'' \<mapsto> disposition,
                                                 ''Content-Type'' \<mapsto> ''application/octet-stream'') \<rparr> in
                             case activeDownloads s1 (downloadId s1) of
                               None \<Rightarrow> (setup_failed ''Cannot set properties of undefined'' s1, [])
                             | Some en \<Rightarrow>
                                 (s1 \<lparr> activeDownloads := (activeDownloads s1)(downloadId s1 \<mapsto>
                                          en \<lparr> e_title := yt_title videoInfo, status := ''downloading'',
                                              e_totalSize := yt_filesize f, e_format := format_id f \<rparr>),
                                       spawned := True,
                                       total_size := yt_filesize f,
                                       interval_on := truthy (yt_filesize f),
                                       listening := True \<rparr>,
                                  [Spawn (the (query_videoUrl req)) (the (query_itag req))])))))))"

subsection \<open>The handler marked FIXED VERSION\<close>

text \<open>
  Its listeners: \<open>end\<close> ends the response without looking at \<open>res.writable\<close>; \<open>error\<close>
  answers 500 or, when the headers are out, ends the response; \<open>close\<close> answers 500 for a
  non-zero exit code when nothing was sent; a closed request kills the process.  There is no
  table entry, no timer and no \<open>timeout\<close> listener.
\<close>

fun on_event_fixed :: "event \<Rightarrow> session \<Rightarrow> session" where
  "on_event_fixed ev s =
     (if \<not> listening s then s
      else (case ev of
              StdoutData chunk writable \<Rightarrow> on_data chunk writable s
            | StdoutEnd writable \<Rightarrow> res_end s
            | ProcError msg \<Rightarrow>
                (if headersSent s then res_end s
                 else fail_unless_sent (''Download process error: '' @ msg) s)
            | ProcClose code \<Rightarrow>
                (if code \<noteq> Some 0
                 then fail_unless_sent (''Download failed with exit code '' @ code_text code) s else s)
            | ReqClose \<Rightarrow> kill_child s
            | _ \<Rightarrow> s))"

definition run_fixed :: "event list \<Rightarrow> session \<Rightarrow> session" where
  "run_fixed evs s = foldl (\<lambda>st ev. on_event_fixed ev st) s evs"

text \<open>All chunks that the process printed, in order, and whether each found the response writable.\<close>

fun stdout_chunks :: "event list \<Rightarrow> string list" where
  "stdout_chunks [] = []"
| "stdout_chunks (StdoutData chunk writable # evs) = chunk # stdout_chunks evs"
| "stdout_chunks (ev # evs) = stdout_chunks evs"

fun all_writable :: "event list \<Rightarrow> bool" where
  "all_writable [] = True"
| "all_writable (StdoutData chunk writable # evs) = (writable \<and> all_writable evs)"
| "all_writable (ev # evs) = all_writable evs"

subsection \<open>The write buffer of the response\<close>

text \<open>
  Node keeps what \<open>res.write\<close> has accepted in memory until the socket has taken it, and
  \<open>res.write\<close> returns \<open>false\<close> as soon as \<open>highWaterMark\<close> bytes or more are waiting (16384
  by default, 65536 in recent versions); a writer that respects back-pressure then stops
  until \<open>drain\<close>, as \<open>pipe\<close> does by pausing its source.  \<open>taken\<close> is the number of bytes the
  socket has taken so far, which depends on the client alone.  The stdout listeners discard
  the value that \<open>res.write\<close> returns and never pause \<open>childProcess.stdout\<close>.
\<close>

definition queued_bytes :: "relay_state \<Rightarrow> nat \<Rightarrow> nat" where
  "queued_bytes st taken = length (concat (written st)) - taken"

definition write_returned :: "nat \<Rightarrow> relay_state \<Rightarrow> nat \<Rightarrow> bool" where
  "write_returned highWaterMark st taken = (queued_bytes st taken < highWaterMark)"

text \<open>
  The fixed handler from the request to the registration of its listeners.  \<open>Inl\<close> is the
  response of an early \<open>return\<close> or of the \<open>catch\<close> block; \<open>Inr\<close> is the download under way,
  with the headers set so far.
\<close>

definition fixed_headers :: "string \<Rightarrow> ytformat \<Rightarrow> (string \<rightharpoonup> string)" where
  "fixed_headers name f =
     (let hs = [''Content-Disposition'' \<mapsto> content_disposition (safe_filename name),
                ''Content-Type'' \<mapsto> content_type_for (ext f)]
      in if truthy (yt_filesize f) then hs(''Content-Length'' \<mapsto> to_string (yt_filesize f)) else hs)"

definition download_fixed :: "env \<Rightarrow> request \<Rightarrow> (response + session) \<times> effect list" where
  "download_fixed e req =
     (if \<not> param_given (query_videoUrl req) \<or> \<not> param_given (query_itag req)
      then (Inl (answer 400 Map.empty (Json ''Video URL and format itag are required'')), [])
      else
        (let videoUrl = the (query_videoUrl req); i = the (query_itag req) in
         if \<not> validateURL e videoUrl
         then (Inl (answer 400 Map.empty (Json ''Invalid YouTube URL'')), [])
         else
           (case youtubedl e videoUrl of
              YtRejects msg \<Rightarrow>
                (Inl (answer 500 Map.empty (Json (''Download failed: '' @ msg))), [Resolve videoUrl])
            | YtResolves videoInfo \<Rightarrow>
                (case yt_formats videoInfo of
                   None \<Rightarrow>
                     (Inl (answer 500 Map.empty (Json ''Download failed: Cannot read properties of undefined'')),
                      [Resolve videoUrl])
                 | Some fs \<Rightarrow>
                     (case find_itag i fs of
                        None \<Rightarrow>
                          (Inl (answer 400 Map.empty (Json ''Requested format not available'')),
                           [Resolve videoUrl])
                      | Some f \<Rightarrow>
                          (case download_filename (sanitize_upto 200) True (query_filename req)
                                  (yt_title videoInfo) f of
                             None \<Rightarrow>
                               (Inl (answer 500 Map.empty (Json ''Download failed: filename.replace is not a function'')),
                                [Resolve videoUrl])
                           | Some name \<Rightarrow>
                               (Inr ((fresh_session [] Map.empty)
                                       \<lparr> out_headers := fixed_headers name f,
                                         spawned := True, total_size := yt_filesize f,
                                         listening := True \<rparr>),
                                [Resolve videoUrl, Spawn videoUrl i])))))))"

section \<open>Example data\<close>

text \<open>
  A manifest with three entries: a 360p MP4 with both tracks, a 720p video-only stream whose
  identifier is \<open>hls-720\<close>, and an entry whose identifier is the string \<open>720p\<close> and which
  carries yt-dlp's numeric quality rank 5.
\<close>

definition yt_18 :: ytformat where
  "yt_18 = \<lparr> format_id = JStr ''18'', yt_url = JStr ''https://cdn.example/18'',
             vcodec = JStr ''avc1'', acodec = JStr ''mp4a'', yt_quality = JUndefined,
             height = JNum 360, width = JNum 640, ext = JStr ''mp4'', tbr = JNum 500,
             abr = JUndefined, yt_filesize = JNum 1000, yt_fps = JNum 30 \<rparr>"

definition yt_hls720 :: ytformat where
  "yt_hls720 = \<lparr> format_id = JStr ''hls-720'', yt_url = JStr ''https://cdn.example/hls'',
             vcodec = JStr ''avc1'', acodec = JStr ''none'', yt_quality = JUndefined,
             height = JNum 720, width = JNum 1280, ext = JStr ''mp4'', tbr = JNum 1500,
             abr = JUndefined, yt_filesize = JNull, yt_fps = JNum 30 \<rparr>"

definition yt_720p :: ytformat where
  "yt_720p = \<lparr> format_id = JStr ''720p'', yt_url = JStr ''https://cdn.example/720'',
             vcodec = JStr ''vp9'', acodec = JStr ''opus'', yt_quality = JNum 5,
             height = JNum 720, width = JNum 1280, ext = JStr ''webm'', tbr = JNum 1400,
             abr = JUndefined, yt_filesize = JNum 2000, yt_fps = JNum 30 \<rparr>"

definition example_manifest :: manifest where
  "example_manifest = \<lparr> yt_id = JStr ''dQw4w9WgXcQ'', yt_title = JStr ''Some title'',
             yt_thumbnail = JNull, yt_uploader = JStr ''someone'',
             yt_formats = Some [yt_18, yt_hls720, yt_720p] \<rparr>"

definition example_info :: videoInfo where
  "example_info = \<lparr> videoId = JStr ''dQw4w9WgXcQ'', title = JStr ''Some title'',
             thumbnail = JNull, author = JStr ''someone'',
             formats = [describe_format yt_hls720, describe_format yt_18, describe_format yt_720p] \<rparr>"

text \<open>
  An environment in which yt-dlp resolves every URL to the example manifest, the only URL
  that \<open>validateURL\<close> accepts and \<open>new URL\<close> parses is the video URL of the examples (its id,
  \<open>dQw4w9WgXcQ\<close>, has eleven characters), and an upstream
  that answers every GET with 200 and an eleven-byte body in two chunks.
\<close>

definition example_upstream :: upstream_response where
  "example_upstream = \<lparr> statusCode = 200, content_type = Some ''video/mp4'',
       content_length = Some ''11'', chunks = [''hello '', ''world''], ends = True \<rparr>"

definition example_env :: env where
  "example_env = \<lparr> youtubedl = (\<lambda>u. YtResolves example_manifest),
       client_get = (\<lambda>u. Responds example_upstream),
       validateURL = (\<lambda>u. u = ''https://www.youtube.com/watch?v=dQw4w9WgXcQ''),
       search_v = (\<lambda>u. if u = ''https://www.youtube.com/watch?v=dQw4w9WgXcQ''
                        then Some (Some ''dQw4w9WgXcQ'') else None) \<rparr>"

definition no_params :: request where
  "no_params = \<lparr> query_url = None, query_filename = None, query_quality = None,
       query_videoUrl = None, query_itag = None \<rparr>"



definition itag_request :: request where
  "itag_request = no_params \<lparr> query_videoUrl := Some ''https://www.youtube.com/watch?v=dQw4w9WgXcQ'',
                               query_itag := Some ''18'' \<rparr>"





text \<open>
  A download of format 18 through the tracking handler, requested at clock reading
  1700000000000: the session after the synchronous part of the handler, and after the
  manifest has arrived.
\<close>

definition tracked_started :: session where
  "tracked_started = fst (start_tracked example_env itag_request 1700000000000 Map.empty)"

definition tracked_streaming :: session where
  "tracked_streaming = fst (resume_tracked (YtResolves example_manifest) itag_request tracked_started)"

definition starting_entry :: entry where
  "starting_entry = \<lparr> e_videoId = ''dQw4w9WgXcQ'', e_progress = 0, status = ''starting'',
       e_title = JUndefined, e_totalSize = JUndefined, e_format = JUndefined,
       e_downloadedBytes = None \<rparr>"

definition downloading_entry :: entry where
  "downloading_entry = starting_entry \<lparr> e_title := JStr ''Some title'', status := ''downloading'',
       e_totalSize := JNum 1000, e_format := JStr ''18'' \<rparr>"

text \<open>
  Three chunks of 64 KiB, as a pipe delivers them, each finding the response writable, for a
  client that reads nothing in the meantime.
\<close>

definition big_chunk :: string where
  "big_chunk = replicate 65536 (CHR ''a'')"

definition slow_client_events :: "event list" where
  "slow_client_events = [StdoutData big_chunk True, StdoutData big_chunk True, StdoutData big_chunk True]"



section \<open>Properties of the resolved format list\<close>

lemma sort_insert_set: "set (sort_insert cmp x ys) = insert x (set ys)"
  by (induction ys) auto

lemma array_sort_set: "set (array_sort cmp xs) = set xs"
  by (induction xs) (auto simp: array_sort_def sort_insert_set)

lemma array_sort_length: "length (array_sort cmp xs) = length xs"
proof (induction xs)
  case Nil
  show ?case by (simp add: array_sort_def)
next
  case (Cons x xs)
  have "length (sort_insert cmp x ys) = Suc (length ys)" for ys
    by (induction ys) auto
  with Cons show ?case by (simp add: array_sort_def)
qed

lemma sort_insert_descending:
  assumes "sorted_wrt (\<lambda>a b. qheight b \<le> qheight a) ys"
  shows "sorted_wrt (\<lambda>a b. qheight b \<le> qheight a) (sort_insert compare_quality x ys)"
  using assms
proof (induction ys)
  case Nil
  show ?case by simp
next
  case (Cons y ys)
  show ?case
  proof (cases "compare_quality x y \<le> 0")
    case True
    then have "qheight y \<le> qheight x" by (simp add: compare_quality_def)
    moreover from Cons.prems have "\<forall>z \<in> set ys. qheight z \<le> qheight y" by simp
    ultimately have "\<forall>z \<in> set (y # ys). qheight z \<le> qheight x" by fastforce
    with True Cons.prems show ?thesis by simp
  next
    case False
    then have "qheight x \<le> qheight y" by (simp add: compare_quality_def)
    with False Cons show ?thesis by (auto simp: sort_insert_set)
  qed
qed

lemma array_sort_descending:
  "sorted_wrt (\<lambda>a b. qheight b \<le> qheight a) (array_sort compare_quality xs)"
proof (induction xs)
  case Nil
  show ?case by (simp add: array_sort_def)
next
  case (Cons x xs)
  then show ?case using sort_insert_descending by (simp add: array_sort_def)
qed

lemma parseInt_or_0_examples:
  "parseInt_or_0 (JStr ''720p'') = 720" "parseInt_or_0 (JStr ''360p'') = 360"
  "parseInt_or_0 (JNum 5) = 5"
  by (simp_all add: parseInt_or_0_def parseInt_def is_space_def digit_val_def digits_value_def)

lemma example_labels:
  "quality (describe_format yt_hls720) = JStr ''720p''"
  "quality (describe_format yt_18) = JStr ''360p''"
  "quality (describe_format yt_720p) = JNum 5"
  by (simp_all add: describe_format_def quality_label_def yt_hls720_def yt_18_def yt_720p_def)

lemma example_resolves: "getVideoInfo (YtResolves example_manifest) = Inr example_info"
proof -
  have keep: "filter keep_format [yt_18, yt_hls720, yt_720p] = [yt_18, yt_hls720, yt_720p]"
    by (simp add: keep_format_def yt_18_def yt_hls720_def yt_720p_def)
  have cmp1: "compare_quality (describe_format yt_hls720) (describe_format yt_720p) \<le> 0"
    and cmp2: "\<not> compare_quality (describe_format yt_18) (describe_format yt_hls720) \<le> 0"
    and cmp3: "compare_quality (describe_format yt_18) (describe_format yt_720p) \<le> 0"
    by (simp_all add: compare_quality_def qheight_def example_labels parseInt_or_0_examples)
  have "array_sort compare_quality (map describe_format [yt_18, yt_hls720, yt_720p])
          = [describe_format yt_hls720, describe_format yt_18, describe_format yt_720p]"
    by (simp add: array_sort_def cmp1 cmp2 cmp3)
  then show ?thesis
    by (simp add: getVideoInfo_def example_manifest_def example_info_def keep del: filter.simps)
qed

text \<open>
  C8.  The format list that \<open>getVideoInfo\<close> returns is sorted by descending resolution: for
  positions \<open>i < j\<close> of the returned array, the number the comparator reads from entry
  \<open>i\<close>'s quality label (\<open>parseInt(label) || 0\<close>) is at least the one it reads from entry \<open>j\<close>'s.
\<close>

theorem getVideoInfo_formats_descending:
  assumes "getVideoInfo outcome = Inr info" and "i < j" and "j < length (formats info)"
  shows "parseInt_or_0 (quality (formats info ! j)) \<le> parseInt_or_0 (quality (formats info ! i))"
proof -
  from assms(1) obtain xs where "formats info = array_sort compare_quality xs"
    by (auto simp: getVideoInfo_def split: ytdlp_outcome.splits option.splits)
  then have "sorted_wrt (\<lambda>a b. qheight b \<le> qheight a) (formats info)"
    by (simp add: array_sort_descending)
  with assms(2,3) have "qheight (formats info ! j) \<le> qheight (formats info ! i)"
    by (simp add: sorted_wrt_iff_nth_less)
  then show ?thesis by (simp add: qheight_def)
qed

theorem getVideoInfo_formats_descending_witness:
  "getVideoInfo (YtResolves example_manifest) = Inr example_info
   \<and> (1::nat) < 2 \<and> 2 < length (formats example_info) + 1
   \<and> parseInt_or_0 (quality (formats example_info ! 1)) = 360
   \<and> parseInt_or_0 (quality (formats example_info ! 0)) = 720
   \<and> parseInt_or_0 (quality (formats example_info ! 1))
       \<le> parseInt_or_0 (quality (formats example_info ! 0))"
proof -
  have len: "1 < length (formats example_info)" by (simp add: example_info_def)
  have "parseInt_or_0 (quality (formats example_info ! 1))
          \<le> parseInt_or_0 (quality (formats example_info ! 0))"
    using getVideoInfo_formats_descending [OF example_resolves _ len, of 0] by simp
  then show ?thesis
    using example_resolves by (simp add: example_info_def example_labels parseInt_or_0_examples)
qed

subsection \<open>What selection can return, and usable entries\<close>

lemma find_first_such:
  "find P xs = Some x \<Longrightarrow> first_such P xs x"
  unfolding first_such_def by (auto simp: find_Some_iff)

lemma find_None_no_match: "find P xs = None \<longleftrightarrow> \<not> (\<exists>x \<in> set xs. P x)"
  by (induction xs) auto

lemma find_Some_member: "find P xs = Some x \<Longrightarrow> x \<in> set xs"
  by (auto simp: find_Some_iff)

lemma selectFormat_member: "selectFormat qual fs = Some f \<Longrightarrow> f \<in> set fs"
  unfolding selectFormat_def Let_def
  by (cases qual; cases fs) (auto dest!: find_Some_member split: option.splits if_splits)

lemma selectFormat_None_iff: "selectFormat qual fs = None \<longleftrightarrow> fs = []"
proof
  assume "selectFormat qual fs = None"
  then show "fs = []"
    by (auto simp: selectFormat_def Let_def split: option.splits if_splits list.splits)
next
  assume "fs = []"
  then show "selectFormat qual fs = None"
    by (simp add: selectFormat_def Let_def split: option.splits)
qed

lemma described_usable:
  assumes "keep_format y"
  shows "truthy (url (describe_format y))"
    and "hasVideo (describe_format y) \<or> hasAudio (describe_format y)"
  using assms by (simp_all add: keep_format_def describe_format_def)

lemma getVideoInfo_members:
  assumes "getVideoInfo outcome = Inr info" and "f \<in> set (formats info)"
  obtains y where "keep_format y" and "f = describe_format y"
proof -
  from assms(1) obtain ys where "formats info = array_sort compare_quality (map describe_format (filter keep_format ys))"
    by (auto simp: getVideoInfo_def split: ytdlp_outcome.splits option.splits)
  with assms(2) have "f \<in> describe_format ` {y \<in> set ys. keep_format y}"
    by (simp add: array_sort_set)
  then show thesis using that by blast
qed

text \<open>
  C9.  Every format descriptor that \<open>getVideoInfo\<close> returns has a source URL that is present
  and not the empty string, and at least one of \<open>hasVideo\<close>, \<open>hasAudio\<close>; consequently the
  handler's "no downloadable format" branch is taken over this list only when the list is empty.
\<close>

theorem getVideoInfo_formats_usable:
  assumes "getVideoInfo outcome = Inr info"
  shows "(\<forall>f \<in> set (formats info).
            truthy (url f) \<and> url f \<noteq> JStr [] \<and> url f \<noteq> JUndefined \<and> url f \<noteq> JNull
            \<and> (hasVideo f \<or> hasAudio f))
         \<and> (\<forall>qual. no_downloadable_format qual (formats info) \<longleftrightarrow> formats info = [])"
proof -
  have usable: "truthy (url f) \<and> (hasVideo f \<or> hasAudio f)" if "f \<in> set (formats info)" for f
  proof -
    from assms that obtain y where "keep_format y" and "f = describe_format y"
      by (rule getVideoInfo_members)
    then show ?thesis using described_usable by simp
  qed
  have fails: "no_downloadable_format qual (formats info) \<longleftrightarrow> formats info = []" for qual
  proof (cases "selectFormat qual (formats info)")
    case None
    then have "formats info = []" by (simp add: selectFormat_None_iff)
    with None show ?thesis unfolding no_downloadable_format_def by simp
  next
    case (Some f)
    then have "f \<in> set (formats info)" by (rule selectFormat_member)
    then have "truthy (url f)" using usable by blast
    moreover have "formats info \<noteq> []"
    proof
      assume "formats info = []"
      then have "selectFormat qual (formats info) = None" by (simp add: selectFormat_None_iff)
      with Some show False by simp
    qed
    ultimately show ?thesis using Some by (simp add: no_downloadable_format_def)
  qed
  have present: "url f \<noteq> JStr [] \<and> url f \<noteq> JUndefined \<and> url f \<noteq> JNull" if "truthy (url f)" for f
    using that by (cases "url f") simp_all
  show ?thesis
  proof (intro conjI ballI allI)
    fix f assume f: "f \<in> set (formats info)"
    then show "truthy (url f)" using usable by blast
    then show "url f \<noteq> JStr []" "url f \<noteq> JUndefined" "url f \<noteq> JNull" using present by blast+
    show "hasVideo f \<or> hasAudio f" using f usable by blast
  next
    fix qual
    show "no_downloadable_format qual (formats info) \<longleftrightarrow> formats info = []" by (rule fails)
  qed
qed

lemma example_first:
  "formats example_info ! 0 = describe_format yt_hls720" "formats example_info \<noteq> []"
  by (simp_all add: example_info_def)

lemma hls_fields: "url (describe_format yt_hls720) = JStr ''https://cdn.example/hls''"
  "hasVideo (describe_format yt_hls720)" "\<not> hasAudio (describe_format yt_hls720)"
  by (simp_all add: describe_format_def yt_hls720_def)

theorem getVideoInfo_formats_usable_witness:
  "getVideoInfo (YtResolves example_manifest) = Inr example_info
   \<and> url (formats example_info ! 0) = JStr ''https://cdn.example/hls''
   \<and> hasVideo (formats example_info ! 0) \<and> \<not> hasAudio (formats example_info ! 0)
   \<and> formats example_info \<noteq> []
   \<and> \<not> no_downloadable_format None (formats example_info)"
proof -
  have "\<not> no_downloadable_format None (formats example_info)"
    using getVideoInfo_formats_usable [OF example_resolves] example_first(2) by blast
  then show ?thesis
    by (simp only: example_first hls_fields example_resolves simp_thms)
qed

section \<open>The selection policy\<close>

lemma example_fields:
  "itag (describe_format yt_hls720) = JStr ''hls-720''"
  "itag (describe_format yt_18) = JStr ''18''"
  "itag (describe_format yt_720p) = JStr ''720p''"
  "hasVideo (describe_format yt_18)" "hasAudio (describe_format yt_18)"
  by (simp_all add: describe_format_def yt_hls720_def yt_18_def yt_720p_def)

lemma example_select_code:
  "selectFormat (Some ''720p'') (formats example_info) = Some (describe_format yt_hls720)"
  by (simp add: selectFormat_def example_info_def selector_match_def example_fields example_labels)

lemma example_select_spec:
  "spec_selectFormat (Some ''720p'') (formats example_info) = Some (describe_format yt_720p)"
  by (simp add: spec_selectFormat_def param_given_def example_info_def example_fields example_labels)

text \<open>
  The code looks for the selector with one pass, \<open>find(f => f.itag === quality || f.quality === quality)\<close>:
  an entry whose quality label equals the selector wins over a later entry whose identifier
  equals it.  In the example manifest the selector \<open>720p\<close> picks the stream \<open>hls-720\<close>
  (label \<open>720p\<close>), where the policy "identifier first, else label" picks the entry whose
  identifier is \<open>720p\<close>.
\<close>

theorem selectFormat_label_before_identifier:
  "getVideoInfo (YtResolves example_manifest) = Inr example_info
   \<and> selectFormat (Some ''720p'') (formats example_info) = Some (describe_format yt_hls720)
   \<and> itag (describe_format yt_hls720) = JStr ''hls-720''
   \<and> spec_selectFormat (Some ''720p'') (formats example_info) = Some (describe_format yt_720p)
   \<and> itag (describe_format yt_720p) = JStr ''720p''
   \<and> selectFormat (Some ''720p'') (formats example_info)
        \<noteq> spec_selectFormat (Some ''720p'') (formats example_info)"
proof -
  have "itag (describe_format yt_hls720) \<noteq> itag (describe_format yt_720p)"
    by (simp add: example_fields)
  then have "describe_format yt_hls720 \<noteq> describe_format yt_720p"
    by force
  then show ?thesis
    by (simp only: example_resolves example_select_code example_select_spec example_fields
          option.inject simp_thms)
qed

text \<open>
  C1 (as the code has it).  Over a non-empty resolved format list the handler always selects a
  format: when a non-empty quality selector is supplied and some entry's identifier or quality
  label equals it, the first such entry in list order; otherwise the first entry with both
  audio and video; otherwise the first entry of the list.
\<close>

theorem selectFormat_policy:
  assumes "fs \<noteq> []"
  shows "\<exists>f. selectFormat qual fs = Some f \<and>
           (if param_given qual \<and> (\<exists>g \<in> set fs. selector_match (the qual) g)
              then first_such (selector_match (the qual)) fs f
            else if \<exists>g \<in> set fs. hasVideo g \<and> hasAudio g
              then first_such (\<lambda>g. hasVideo g \<and> hasAudio g) fs f
            else f = fs ! 0)"
proof -
  let ?both = "\<lambda>g. hasVideo g \<and> hasAudio g"
  have fallback: "\<exists>f. (case find ?both fs of Some f \<Rightarrow> Some f | None \<Rightarrow> (case fs of [] \<Rightarrow> None | f # _ \<Rightarrow> Some f)) = Some f
         \<and> (if \<exists>g \<in> set fs. ?both g then first_such ?both fs f else f = fs ! 0)"
  proof (cases "find ?both fs")
    case None
    then have no: "\<not> (\<exists>g \<in> set fs. ?both g)" using find_None_no_match [of ?both fs] by simp
    from assms obtain a rest where fs: "fs = a # rest" by (cases fs) auto
    have "(case fs of [] \<Rightarrow> None | f # _ \<Rightarrow> Some f) = Some (fs ! 0)" by (simp add: fs)
    with None no show ?thesis by auto
  next
    case (Some f)
    then have "first_such ?both fs f" by (rule find_first_such)
    moreover from Some have "\<exists>g \<in> set fs. ?both g" using find_None_no_match [of ?both fs] by simp
    ultimately show ?thesis using Some by simp
  qed
  show ?thesis
  proof (cases "param_given qual")
    case False
    then have "selectFormat qual fs = (case find ?both fs of Some f \<Rightarrow> Some f | None \<Rightarrow> (case fs of [] \<Rightarrow> None | f # _ \<Rightarrow> Some f))"
      by (simp add: selectFormat_def param_given_def split: option.splits)
    with False fallback show ?thesis by simp
  next
    case True
    then obtain q where q: "qual = Some q" "q \<noteq> []"
      by (auto simp: param_given_def split: option.splits)
    show ?thesis
    proof (cases "find (selector_match q) fs")
      case None
      then have no: "\<not> (\<exists>g \<in> set fs. selector_match q g)"
        using find_None_no_match [of "selector_match q" fs] by simp
      from None q have "selectFormat qual fs = (case find ?both fs of Some f \<Rightarrow> Some f | None \<Rightarrow> (case fs of [] \<Rightarrow> None | f # _ \<Rightarrow> Some f))"
        by (simp add: selectFormat_def)
      with no q fallback show ?thesis by simp
    next
      case (Some f)
      then have "first_such (selector_match q) fs f" by (rule find_first_such)
      moreover from Some have "\<exists>g \<in> set fs. selector_match q g"
        using find_None_no_match [of "selector_match q" fs] by simp
      moreover from Some q have "selectFormat qual fs = Some f" by (simp add: selectFormat_def)
      ultimately show ?thesis using True q by simp
    qed
  qed
qed

theorem selectFormat_policy_witness:
  "formats example_info \<noteq> []
   \<and> param_given (Some ''720p'')
   \<and> selector_match ''720p'' (describe_format yt_hls720)
   \<and> selectFormat (Some ''720p'') (formats example_info) = Some (formats example_info ! 0)
   \<and> first_such (selector_match ''720p'') (formats example_info) (formats example_info ! 0)"
proof -
  have m: "selector_match ''720p'' (describe_format yt_hls720)"
    by (simp add: selector_match_def example_labels)
  then have ex: "\<exists>g \<in> set (formats example_info). selector_match (the (Some ''720p'')) g"
    by (simp add: example_info_def)
  have pg: "param_given (Some ''720p'')" by (simp add: param_given_def)
  from selectFormat_policy [OF example_first(2), of "Some ''720p''"] pg ex
  obtain f where "selectFormat (Some ''720p'') (formats example_info) = Some f"
    and "first_such (selector_match ''720p'') (formats example_info) f"
    by auto
  then show ?thesis
    using example_select_code m pg by (simp add: example_first)
qed

section \<open>The url/quality handler on a URL that is not YouTube's\<close>


















section \<open>Requests without the URL parameter\<close>

text \<open>
  C4.  A request to a download endpoint without its URL parameter (\<open>url\<close>, or \<open>videoUrl\<close>
  for the itag handlers) is answered with status 400 before any upstream work: the handler
  has made no call at all (no metadata lookup, no process, no HTTP request), and the tracking
  handler has left the table as it was.
\<close>

theorem missing_url_rejected:
  "(\<not> param_given (query_url req) \<longrightarrow>
      download e req = (answer 400 Map.empty (Json ''Missing URL''), []))
   \<and> (\<not> param_given (query_videoUrl req) \<longrightarrow>
        download_fixed e req
          = (Inl (answer 400 Map.empty (Json ''Video URL and format itag are required'')), [])
        \<and> snd (start_tracked e req now tab) = []
        \<and> reply (fst (start_tracked e req now tab))
            = Some (answer 400 Map.empty (Json ''Video URL and format itag are required''))
        \<and> activeDownloads (fst (start_tracked e req now tab)) = tab
        \<and> \<not> spawned (fst (start_tracked e req now tab)))"
  by (simp add: download_def download_fixed_def start_tracked_def fresh_session_def)

theorem missing_url_rejected_witness:
  "\<not> param_given (query_url no_params) \<and> \<not> param_given (query_videoUrl no_params)
   \<and> download example_env no_params = (answer 400 Map.empty (Json ''Missing URL''), [])
   \<and> res_status (fst (download example_env no_params)) = 400
   \<and> download_fixed example_env no_params
        = (Inl (answer 400 Map.empty (Json ''Video URL and format itag are required'')), [])
   \<and> snd (start_tracked example_env no_params 0 Map.empty) = []"
proof -
  have m: "\<not> param_given (query_url no_params)" "\<not> param_given (query_videoUrl no_params)"
    by (simp_all add: no_params_def param_given_def)
  from missing_url_rejected [of no_params example_env 0 Map.empty] m
  show ?thesis by (simp add: answer_def)
qed

section \<open>Relayed bytes\<close>

lemma stdout_chunks_Cons: "stdout_chunks (ev # evs) = stdout_chunks [ev] @ stdout_chunks evs"
  by (cases ev) simp_all

lemma all_writable_Cons: "all_writable (ev # evs) = (all_writable [ev] \<and> all_writable evs)"
  by (cases ev) simp_all

lemma on_event_listening: "listening (on_event ev s) = listening s"
  by (cases ev)
     (auto simp: on_data_def res_end_def fail_unless_sent_def kill_child_def delete_entry_def
        on_tick_def Let_def split: option.splits jsval.splits)

lemma on_event_fixed_listening: "listening (on_event_fixed ev s) = listening s"
  by (cases ev)
     (auto simp: on_data_def res_end_def fail_unless_sent_def kill_child_def Let_def)

lemma on_event_stream:
  assumes "listening s" and "all_writable [ev]"
  shows "written (stream (on_event ev s)) = written (stream s) @ stdout_chunks [ev]"
    and "downloadedBytes (stream (on_event ev s))
           = downloadedBytes (stream s) + length (concat (stdout_chunks [ev]))"
  using assms
  by (cases ev;
      simp add: on_data_def res_end_def fail_unless_sent_def kill_child_def delete_entry_def
        on_tick_def Let_def split: option.splits jsval.splits)+

lemma on_event_fixed_stream:
  assumes "listening s" and "all_writable [ev]"
  shows "written (stream (on_event_fixed ev s)) = written (stream s) @ stdout_chunks [ev]"
    and "downloadedBytes (stream (on_event_fixed ev s))
           = downloadedBytes (stream s) + length (concat (stdout_chunks [ev]))"
  using assms
  by (cases ev; simp add: on_data_def res_end_def fail_unless_sent_def kill_child_def Let_def)+

lemma run_Cons: "run (ev # evs) s = run evs (on_event ev s)"
  by (simp add: run_def)

lemma run_fixed_Cons: "run_fixed (ev # evs) s = run_fixed evs (on_event_fixed ev s)"
  by (simp add: run_fixed_def)

lemma run_relays:
  assumes "listening s" and "all_writable evs"
  shows "written (stream (run evs s)) = written (stream s) @ stdout_chunks evs
       \<and> downloadedBytes (stream (run evs s))
           = downloadedBytes (stream s) + length (concat (stdout_chunks evs))"
  using assms
proof (induction evs arbitrary: s)
  case Nil
  then show ?case by (simp add: run_def)
next
  case (Cons ev evs)
  from Cons.prems(2) have w1: "all_writable [ev]" and w: "all_writable evs"
    using all_writable_Cons [of ev evs] by simp_all
  have l: "listening (on_event ev s)" using Cons.prems(1) by (simp only: on_event_listening)
  note ih = Cons.IH [OF l w]
  note st = on_event_stream [OF Cons.prems(1) w1]
  show ?case
    unfolding run_Cons stdout_chunks_Cons [of ev evs]
    using ih st by (simp del: on_event.simps stdout_chunks.simps)
qed

lemma run_fixed_relays:
  assumes "listening s" and "all_writable evs"
  shows "written (stream (run_fixed evs s)) = written (stream s) @ stdout_chunks evs
       \<and> downloadedBytes (stream (run_fixed evs s))
           = downloadedBytes (stream s) + length (concat (stdout_chunks evs))"
  using assms
proof (induction evs arbitrary: s)
  case Nil
  then show ?case by (simp add: run_fixed_def)
next
  case (Cons ev evs)
  from Cons.prems(2) have w1: "all_writable [ev]" and w: "all_writable evs"
    using all_writable_Cons [of ev evs] by simp_all
  have l: "listening (on_event_fixed ev s)" using Cons.prems(1) by (simp only: on_event_fixed_listening)
  note ih = Cons.IH [OF l w]
  note st = on_event_fixed_stream [OF Cons.prems(1) w1]
  show ?case
    unfolding run_fixed_Cons stdout_chunks_Cons [of ev evs]
    using ih st by (simp del: on_event_fixed.simps stdout_chunks.simps)
qed

lemma all_writable_take: "all_writable evs \<Longrightarrow> all_writable (take n evs)"
proof (induction evs arbitrary: n)
  case Nil
  show ?case by simp
next
  case (Cons ev evs)
  show ?case
  proof (cases n)
    case 0
    then show ?thesis by simp
  next
    case (Suc m)
    from Cons.prems have "all_writable [ev]" and "all_writable evs"
      using all_writable_Cons [of ev evs] by simp_all
    with Cons.IH [of m] have "all_writable [ev] \<and> all_writable (take m evs)" by simp
    then have "all_writable (ev # take m evs)" using all_writable_Cons [of ev "take m evs"] by simp
    with Suc show ?thesis by simp
  qed
qed

lemma download_fixed_started:
  assumes "fst (download_fixed e req) = Inr s"
  shows "listening s" and "spawned s" and "stream s = relay_start" and "\<not> killed s"
    and "\<not> headersSent s"
  using assms
  by (auto simp: download_fixed_def Let_def fresh_session_def
           split: if_splits ytdlp_outcome.splits option.splits)

lemma stream_of_relay_start: "written relay_start = []" "downloadedBytes relay_start = 0"
  by (simp_all add: relay_start_def)



text \<open>
  The stdout listener of both itag handlers, after any sequence of events in which every
  chunk found the response writable, has handed to \<open>res.write\<close> exactly the chunks that yt-dlp
  printed.  The byte counts agree (also with the handler's counter \<open>downloadedBytes\<close>), and
  they agree after every prefix of the events.
\<close>

lemma relayed_bytes_equal:
  assumes "listening s" and "stream s = relay_start" and "all_writable evs"
  shows "written (stream (run evs s)) = stdout_chunks evs
       \<and> length (concat (written (stream (run evs s)))) = length (concat (stdout_chunks evs))
       \<and> downloadedBytes (stream (run evs s)) = length (concat (stdout_chunks evs))
       \<and> written (stream (run_fixed evs s)) = stdout_chunks evs
       \<and> length (concat (written (stream (run_fixed evs s)))) = length (concat (stdout_chunks evs))
       \<and> downloadedBytes (stream (run_fixed evs s)) = length (concat (stdout_chunks evs))
       \<and> (\<forall>n. written (stream (run (take n evs) s)) = stdout_chunks (take n evs)
              \<and> written (stream (run_fixed (take n evs) s)) = stdout_chunks (take n evs))"
proof -
  have tracked: "written (stream (run xs s)) = stdout_chunks xs
       \<and> downloadedBytes (stream (run xs s)) = length (concat (stdout_chunks xs))"
    if "all_writable xs" for xs
    using run_relays [OF assms(1) that] assms(2) by (simp add: stream_of_relay_start)
  have fixed: "written (stream (run_fixed xs s)) = stdout_chunks xs
       \<and> downloadedBytes (stream (run_fixed xs s)) = length (concat (stdout_chunks xs))"
    if "all_writable xs" for xs
    using run_fixed_relays [OF assms(1) that] assms(2) by (simp add: stream_of_relay_start)
  have prefixes: "written (stream (run (take n evs) s)) = stdout_chunks (take n evs)
              \<and> written (stream (run_fixed (take n evs) s)) = stdout_chunks (take n evs)" for n
    using tracked [OF all_writable_take [OF assms(3)]] fixed [OF all_writable_take [OF assms(3)]]
    by simp
  show ?thesis
    using tracked [OF assms(3)] fixed [OF assms(3)] prefixes by simp
qed

text \<open>
  What waits in the write buffer of an itag download is everything yt-dlp has printed less
  what the socket has taken: no event of the handlers holds the process back.
\<close>

lemma itag_write_queue:
  assumes "listening s" and "stream s = relay_start" and "all_writable evs"
  shows "queued_bytes (stream (run evs s)) taken = length (concat (stdout_chunks evs)) - taken"
    and "queued_bytes (stream (run_fixed evs s)) taken = length (concat (stdout_chunks evs)) - taken"
  using relayed_bytes_equal [OF assms] by (simp_all add: queued_bytes_def)

lemma example_fixed_starts: "\<exists>s. fst (download_fixed example_env itag_request) = Inr s"
proof -
  have "find_itag ''18'' [yt_18, yt_hls720, yt_720p] = Some yt_18"
    by (simp add: find_itag_def yt_18_def)
  moreover have "download_filename (sanitize_upto 200) True None (JStr ''Some title'') yt_18 \<noteq> None"
    by (simp add: download_filename_def param_given_def Let_def)
  ultimately show ?thesis
    by (auto simp: download_fixed_def itag_request_def no_params_def param_given_def
          example_env_def example_manifest_def Let_def)
qed

lemma big_chunk_length: "length big_chunk = 65536"
  by (simp add: big_chunk_def)

lemma slow_client_chunks:
  "all_writable slow_client_events"
  "stdout_chunks slow_client_events = [big_chunk, big_chunk, big_chunk]"
  "length (concat (stdout_chunks slow_client_events)) = 196608"
  "all_writable (take 1 slow_client_events)"
  "length (concat (stdout_chunks (take 1 slow_client_events))) = 65536"
  by (simp_all add: slow_client_events_def big_chunk_length)

section \<open>Status codes\<close>














section \<open>A download through the tracking handler\<close>

lemma now_text: "digits10 1700000000000 = ''1700000000000''"
  by simp

lemma itag_request_fields:
  "query_videoUrl itag_request = Some ''https://www.youtube.com/watch?v=dQw4w9WgXcQ''"
  "query_itag itag_request = Some ''18''" "query_filename itag_request = None"
  by (simp_all add: itag_request_def no_params_def)

lemma tracked_started_eq:
  "tracked_started = fresh_session ''1700000000000'' [''1700000000000'' \<mapsto> starting_entry]"
  unfolding tracked_started_def start_tracked_def
  by (simp add: itag_request_fields param_given_def example_env_def now_text starting_entry_def
        Let_def del: digits10.simps)

lemma find_18: "find_itag ''18'' [yt_18, yt_hls720, yt_720p] = Some yt_18"
  by (simp add: find_itag_def yt_18_def)

lemma tracked_filename:
  "download_filename sanitize_alnum False None (JStr ''Some title'') yt_18 = Some ''some_title.mp4''"
  by (simp add: download_filename_def param_given_def sanitize_alnum_def to_lower_def js_or_def
        yt_18_def endsWith_def Let_def)

lemma tracked_streaming_eq:
  "tracked_streaming =
     (fresh_session ''1700000000000'' [''1700000000000'' \<mapsto> downloading_entry])
       \<lparr> listening := True, spawned := True, interval_on := True, total_size := JNum 1000,
         out_headers := [''Content-Disposition'' \<mapsto> ''attachment; filename='' @ [CHR 0x22] @ ''some_title.mp4'' @ [CHR 0x22],
                         ''Content-Type'' \<mapsto> ''application/octet-stream''] \<rparr>"
proof -
  have t: "yt_title example_manifest = JStr ''Some title''"
    and f: "yt_formats example_manifest = Some [yt_18, yt_hls720, yt_720p]"
    by (simp_all add: example_manifest_def)
  have fs: "yt_filesize yt_18 = JNum 1000" "format_id yt_18 = JStr ''18''"
    by (simp_all add: yt_18_def)
  show ?thesis
    unfolding tracked_streaming_def resume_tracked_def tracked_started_eq
    by (simp add: t f itag_request_fields find_18 tracked_filename header_value_ok_def fs
          fresh_session_def downloading_entry_def Let_def)
qed

lemma streaming_fields:
  "downloadId tracked_streaming = ''1700000000000''"
  "activeDownloads tracked_streaming ''1700000000000'' = Some downloading_entry"
  "listening tracked_streaming" "spawned tracked_streaming" "\<not> killed tracked_streaming"
  "signals tracked_streaming = 0" "delete_timers tracked_streaming = 0"
  "stream tracked_streaming = relay_start" "reply tracked_streaming = None"
  "out_headers tracked_streaming ''Content-Length'' = None"
  by (simp_all add: tracked_streaming_eq fresh_session_def)

subsection \<open>Content-Length\<close>

lemma relay_content_length:
  assumes "client_get e u = Responds r" and "statusCode r < 400"
  shows "res_headers (fst (relay e u fname effs)) ''Content-Length''
           = (if param_given (content_length r) then content_length r else None)"
  using assms
  by (auto simp: relay_def Let_def answer_def copy_header_def download_headers_def param_given_def
           split: option.splits)

lemma fixed_content_length:
  assumes "fst (download_fixed e req) = Inr s"
  shows "\<exists>m fs f. youtubedl e (the (query_videoUrl req)) = YtResolves m \<and> yt_formats m = Some fs
           \<and> find_itag (the (query_itag req)) fs = Some f
           \<and> out_headers s ''Content-Length''
               = (if truthy (yt_filesize f) then Some (to_string (yt_filesize f)) else None)"
  using assms
  by (auto simp: download_fixed_def Let_def fixed_headers_def
           split: if_splits ytdlp_outcome.splits option.splits)

lemma tracked_sets_no_content_length:
  "out_headers (fst (resume_tracked outcome req s)) ''Content-Length'' = out_headers s ''Content-Length''"
  by (auto simp: resume_tracked_def setup_failed_def fail_unless_sent_def kill_child_def
        delete_entry_def Let_def split: ytdlp_outcome.splits option.splits)

lemma example_fixed_content_length:
  "\<exists>s. fst (download_fixed example_env itag_request) = Inr s
       \<and> out_headers s ''Content-Length'' = Some ''1000''"
proof -
  from example_fixed_starts obtain s where s: "fst (download_fixed example_env itag_request) = Inr s"
    by blast
  from fixed_content_length [OF s] obtain m fs f where
    "youtubedl example_env (the (query_videoUrl itag_request)) = YtResolves m"
    "yt_formats m = Some fs" "find_itag (the (query_itag itag_request)) fs = Some f"
    and cl: "out_headers s ''Content-Length''
               = (if truthy (yt_filesize f) then Some (to_string (yt_filesize f)) else None)"
    by blast
  then have "m = example_manifest" and "yt_formats m = Some fs" and "find_itag ''18'' fs = Some f"
    by (simp_all add: example_env_def itag_request_fields)
  then have "fs = [yt_18, yt_hls720, yt_720p]" by (simp add: example_manifest_def)
  with \<open>find_itag ''18'' fs = Some f\<close> have "f = yt_18" by (simp add: find_18)
  with cl have "out_headers s ''Content-Length'' = Some ''1000''" by (simp add: yt_18_def)
  with s show ?thesis by blast
qed

text \<open>
  C7 at the tracking handler.  Format 18 of the example manifest has the known size 1000;
  the handler stores it as the entry's \<open>totalSize\<close>, and the response of the download carries
  no \<open>Content-Length\<close> header.  The handler marked FIXED VERSION sends \<open>Content-Length: 1000\<close>
  for the same request.
\<close>

theorem tracked_download_has_no_content_length:
  "find_itag ''18'' (the (yt_formats example_manifest)) = Some yt_18
   \<and> yt_filesize yt_18 = JNum 1000
   \<and> listening tracked_streaming
   \<and> map_option e_totalSize (activeDownloads tracked_streaming ''1700000000000'') = Some (JNum 1000)
   \<and> out_headers tracked_streaming ''Content-Length'' = None
   \<and> (\<exists>s. fst (download_fixed example_env itag_request) = Inr s
          \<and> out_headers s ''Content-Length'' = Some ''1000'')"
proof -
  have "find_itag ''18'' (the (yt_formats example_manifest)) = Some yt_18"
    by (simp add: example_manifest_def find_18)
  moreover have "yt_filesize yt_18 = JNum 1000" by (simp add: yt_18_def)
  moreover have "map_option e_totalSize (activeDownloads tracked_streaming ''1700000000000'') = Some (JNum 1000)"
    by (simp add: streaming_fields downloading_entry_def)
  ultimately show ?thesis
    using streaming_fields(3,10) example_fixed_content_length by blast
qed

theorem tracked_download_has_no_content_length_witness:
  "out_headers tracked_streaming ''Content-Length'' = None
   \<and> (\<exists>s. fst (download_fixed example_env itag_request) = Inr s
          \<and> out_headers s ''Content-Length'' = Some ''1000'')"
  using tracked_download_has_no_content_length by blast

subsection \<open>Cancellation\<close>

lemma cancel_request_kills_nothing:
  "killed (on_event (CancelRequest i) s) = killed s"
  "signals (on_event (CancelRequest i) s) = signals s"
  "listening (on_event (CancelRequest i) s) = listening s"
  "stream (on_event (CancelRequest i) s) = stream s"
  by simp_all

lemma req_close_kills:
  assumes "listening s" and "spawned s" and "\<not> killed s"
  shows "killed (on_event ReqClose s)" and "signals (on_event ReqClose s) = Suc (signals s)"
  using assms by (simp_all add: kill_child_def Let_def split: option.splits)

lemma req_timeout_kills:
  assumes "listening s" and "spawned s" and "\<not> killed s"
  shows "killed (on_event ReqTimeout s)" and "signals (on_event ReqTimeout s) = Suc (signals s)"
  using assms by (simp_all add: kill_child_def)

text \<open>
  C6 at the explicit cancel request.  \<open>DELETE /api/downloads/:id\<close> for a download that is
  under way answers "Download cancelled" and removes the table entry; no signal is sent to
  yt-dlp, the process is not marked killed, and the next chunk it prints is still relayed to
  the client.  A closed request, in contrast, sends SIGTERM.
\<close>

theorem cancel_request_leaves_process_running:
  "activeDownloads tracked_streaming ''1700000000000'' = Some downloading_entry
   \<and> spawned tracked_streaming \<and> \<not> killed tracked_streaming
   \<and> fst (cancel_download ''1700000000000'' (activeDownloads tracked_streaming))
       = answer 200 Map.empty (Message ''Download cancelled'')
   \<and> activeDownloads (on_event (CancelRequest ''1700000000000'') tracked_streaming) ''1700000000000'' = None
   \<and> \<not> killed (on_event (CancelRequest ''1700000000000'') tracked_streaming)
   \<and> signals (on_event (CancelRequest ''1700000000000'') tracked_streaming) = 0
   \<and> written (stream (run [CancelRequest ''1700000000000'', StdoutData ''hello '' True] tracked_streaming))
       = [''hello '']
   \<and> killed (on_event ReqClose tracked_streaming)
   \<and> signals (on_event ReqClose tracked_streaming) = 1"
proof -
  have c: "fst (cancel_download ''1700000000000'' (activeDownloads tracked_streaming))
       = answer 200 Map.empty (Message ''Download cancelled'')"
    "snd (cancel_download ''1700000000000'' (activeDownloads tracked_streaming)) ''1700000000000'' = None"
    by (simp_all add: cancel_download_def streaming_fields dom_def)
  have d: "activeDownloads (on_event (CancelRequest ''1700000000000'') tracked_streaming) ''1700000000000'' = None"
    using c(2) by simp
  have l: "listening (on_event (CancelRequest ''1700000000000'') tracked_streaming)"
    by (simp add: streaming_fields)
  have w: "written (stream (run [CancelRequest ''1700000000000'', StdoutData ''hello '' True] tracked_streaming))
       = [''hello '']"
  proof -
    have a: "all_writable [StdoutData ''hello '' True]" by simp
    have "stream (on_event (CancelRequest ''1700000000000'') tracked_streaming) = relay_start"
      by (simp add: streaming_fields)
    with on_event_stream(1) [OF l a] show ?thesis
      by (simp add: run_def relay_start_def del: on_event.simps)
  qed
  have k: "killed (on_event ReqClose tracked_streaming)" "signals (on_event ReqClose tracked_streaming) = 1"
    using req_close_kills [OF streaming_fields(3,4,5)] by (simp_all add: streaming_fields)
  show ?thesis
    using c(1) d w k
    by (simp add: streaming_fields cancel_request_kills_nothing del: on_event.simps)
qed

subsection \<open>The life of a table entry\<close>

lemma on_event_downloadId: "downloadId (on_event ev s) = downloadId s"
  by (cases ev)
     (auto simp: on_data_def res_end_def fail_unless_sent_def kill_child_def delete_entry_def
        on_tick_def Let_def split: option.splits jsval.splits)

lemma end_of_transfer_deletes:
  assumes "listening s"
  shows "activeDownloads (on_event (StdoutEnd w) s) (downloadId s) = None"
    and "activeDownloads (on_event (ProcClose code) s) (downloadId s) = None"
    and "activeDownloads (on_event (ProcError msg) s) (downloadId s) = None"
  using assms
  by (simp_all add: delete_entry_def res_end_def fail_unless_sent_def Let_def)

lemma req_close_marks_cancelled:
  assumes "listening s" and "activeDownloads s (downloadId s) = Some en"
  shows "activeDownloads (on_event ReqClose s) (downloadId s) = Some (en \<lparr> status := ''cancelled'' \<rparr>)"
    and "delete_timers (on_event ReqClose s) = Suc (delete_timers s)"
  using assms by (simp_all add: kill_child_def Let_def)

lemma delete_timer_deletes:
  assumes "0 < delete_timers s"
  shows "activeDownloads (on_event DeleteTimerFires s) (downloadId s) = None"
  using assms by (simp add: delete_entry_def)

lemma deleted_stays_deleted:
  assumes "activeDownloads s (downloadId s) = None"
  shows "activeDownloads (on_event ev s) (downloadId s) = None"
  using assms
  by (cases ev)
     (auto simp: on_data_def res_end_def fail_unless_sent_def kill_child_def delete_entry_def
        on_tick_def cancel_download_def Let_def split: option.splits jsval.splits)

lemma run_deleted_stays_deleted:
  assumes "activeDownloads s (downloadId s) = None"
  shows "activeDownloads (run evs s) (downloadId s) = None"
  using assms
proof (induction evs arbitrary: s)
  case Nil
  then show ?case by (simp add: run_def)
next
  case (Cons ev evs)
  have "activeDownloads (on_event ev s) (downloadId (on_event ev s)) = None"
    using deleted_stays_deleted [OF Cons.prems] by (simp only: on_event_downloadId)
  from Cons.IH [OF this] show ?case by (simp only: run_Cons on_event_downloadId)
qed

lemma cancelled_stays_cancelled:
  assumes "activeDownloads s (downloadId s) = Some en" and "status en = ''cancelled''"
  shows "case activeDownloads (on_event ev s) (downloadId s) of
           None \<Rightarrow> True | Some en' \<Rightarrow> status en' = ''cancelled''"
  using assms
  by (cases ev)
     (auto simp: on_data_def res_end_def fail_unless_sent_def kill_child_def delete_entry_def
        on_tick_def cancel_download_def Let_def split: option.splits jsval.splits)

lemma not_listening_ignores:
  assumes "\<not> listening s"
  shows "on_event ReqClose s = s" and "on_event ReqTimeout s = s"
  using assms by simp_all

text \<open>
  C5 when the client leaves early.  The request is closed while the handler still awaits the
  manifest: the \<open>close\<close> listener is not registered yet, so nothing is cancelled and no
  timer is set.  The handler goes on, yt-dlp is started and never signalled, and while it
  prints (to a response that is no longer writable) the entry stays in the table with status
  \<open>downloading\<close>: no grace window bounds its life, only the end of the process removes it.
\<close>

theorem early_disconnect_leaves_entry:
  "activeDownloads tracked_started ''1700000000000'' = Some starting_entry
   \<and> \<not> listening tracked_started
   \<and> on_event ReqClose tracked_started = tracked_started
   \<and> fst (resume_tracked (YtResolves example_manifest) itag_request (on_event ReqClose tracked_started))
       = tracked_streaming
   \<and> activeDownloads
        (run [StdoutData ''hello '' False, IntervalTick, StdoutData ''world'' False] tracked_streaming)
        ''1700000000000''
       = Some (downloading_entry \<lparr> e_progress := 1, e_downloadedBytes := Some 6 \<rparr>)
   \<and> status (downloading_entry \<lparr> e_progress := 1, e_downloadedBytes := Some 6 \<rparr>) = ''downloading''
   \<and> \<not> killed (run [StdoutData ''hello '' False, IntervalTick, StdoutData ''world'' False] tracked_streaming)
   \<and> signals (run [StdoutData ''hello '' False, IntervalTick, StdoutData ''world'' False] tracked_streaming) = 0
   \<and> delete_timers (run [StdoutData ''hello '' False, IntervalTick, StdoutData ''world'' False] tracked_streaming) = 0
   \<and> written (stream (run [StdoutData ''hello '' False, IntervalTick, StdoutData ''world'' False] tracked_streaming)) = []"
proof -
  let ?evs = "[StdoutData ''hello '' False, IntervalTick, StdoutData ''world'' False]"
  have s0: "activeDownloads tracked_started ''1700000000000'' = Some starting_entry"
    and nl: "\<not> listening tracked_started"
    by (simp_all add: tracked_started_eq fresh_session_def)
  have ig: "on_event ReqClose tracked_started = tracked_started"
    using nl by (rule not_listening_ignores)
  have rs: "fst (resume_tracked (YtResolves example_manifest) itag_request (on_event ReqClose tracked_started))
       = tracked_streaming"
    by (simp only: ig tracked_streaming_def)
  have r: "run ?evs tracked_streaming
      = tracked_streaming
          \<lparr> activeDownloads := [''1700000000000'' \<mapsto> downloading_entry \<lparr> e_progress := 1, e_downloadedBytes := Some 6 \<rparr>],
            stream := relay_start \<lparr> downloadedBytes := 11 \<rparr> \<rparr>"
    by (simp add: run_def tracked_streaming_eq fresh_session_def on_data_def on_tick_def
          relay_start_def downloading_entry_def starting_entry_def eval_nat_numeral)
  have st: "status (downloading_entry \<lparr> e_progress := 1, e_downloadedBytes := Some 6 \<rparr>) = ''downloading''"
    by (simp add: downloading_entry_def)
  show ?thesis
    unfolding r using s0 nl ig rs st
    by (simp add: streaming_fields relay_start_def)
qed

subsection \<open>A client that reads slowly\<close>

text \<open>
  C2 at the itag handlers, with a client that reads more slowly than yt-dlp prints.  Every
  chunk that yt-dlp prints is handed to \<open>res.write\<close> at once, so the bytes written equal the
  bytes read; but the listener discards the value that \<open>res.write\<close> returns and never pauses
  the output of the process, so what the client has not taken waits in the write buffer of
  the response.  After three chunks of 64 KiB the buffer holds all 196608 bytes less those
  the socket took, the whole payload for a client that took none, although the first write
  already returned \<open>false\<close> (at a high-water mark of 16384 as of 65536 bytes).  This holds for
  the tracking handler and for the handler marked FIXED VERSION; the url/quality handler
  relays with \<open>pipe\<close>, which pauses the source in that situation.
\<close>

theorem slow_client_queues_whole_payload:
  "all_writable slow_client_events
   \<and> length (concat (stdout_chunks slow_client_events)) = 196608
   \<and> listening tracked_streaming
   \<and> written (stream (run slow_client_events tracked_streaming)) = stdout_chunks slow_client_events
   \<and> (\<forall>taken. queued_bytes (stream (run slow_client_events tracked_streaming)) taken = 196608 - taken)
   \<and> queued_bytes (stream (run slow_client_events tracked_streaming)) 0 = 196608
   \<and> \<not> write_returned 16384 (stream (run (take 1 slow_client_events) tracked_streaming)) 0
   \<and> \<not> write_returned 65536 (stream (run (take 1 slow_client_events) tracked_streaming)) 0
   \<and> (\<exists>s. fst (download_fixed example_env itag_request) = Inr s
          \<and> written (stream (run_fixed slow_client_events s)) = stdout_chunks slow_client_events
          \<and> (\<forall>taken. queued_bytes (stream (run_fixed slow_client_events s)) taken = 196608 - taken)
          \<and> \<not> write_returned 65536 (stream (run_fixed (take 1 slow_client_events) s)) 0)"
proof -
  note t = streaming_fields(3,8)
  have w: "written (stream (run slow_client_events tracked_streaming)) = stdout_chunks slow_client_events"
    using relayed_bytes_equal [OF t slow_client_chunks(1)] by simp
  have qa: "queued_bytes (stream (run slow_client_events tracked_streaming)) taken = 196608 - taken"
    for taken
    using itag_write_queue(1) [OF t slow_client_chunks(1), of taken] by (simp only: slow_client_chunks(3))
  have q1: "queued_bytes (stream (run (take 1 slow_client_events) tracked_streaming)) 0 = 65536"
    using itag_write_queue(1) [OF t slow_client_chunks(4), of 0] by (simp only: slow_client_chunks(5))
  from example_fixed_starts obtain s where s: "fst (download_fixed example_env itag_request) = Inr s"
    by blast
  note f = download_fixed_started(1,3) [OF s]
  have fw: "written (stream (run_fixed slow_client_events s)) = stdout_chunks slow_client_events"
    using relayed_bytes_equal [OF f slow_client_chunks(1)] by simp
  have fq: "queued_bytes (stream (run_fixed slow_client_events s)) taken = 196608 - taken" for taken
    using itag_write_queue(2) [OF f slow_client_chunks(1), of taken] by (simp only: slow_client_chunks(3))
  have f1: "queued_bytes (stream (run_fixed (take 1 slow_client_events) s)) 0 = 65536"
    using itag_write_queue(2) [OF f slow_client_chunks(4), of 0] by (simp only: slow_client_chunks(5))
  have "\<exists>s. fst (download_fixed example_env itag_request) = Inr s
          \<and> written (stream (run_fixed slow_client_events s)) = stdout_chunks slow_client_events
          \<and> (\<forall>taken. queued_bytes (stream (run_fixed slow_client_events s)) taken = 196608 - taken)
          \<and> \<not> write_returned 65536 (stream (run_fixed (take 1 slow_client_events) s)) 0"
    using s fw fq f1 by (auto simp: write_returned_def)
  then show ?thesis
    using slow_client_chunks(1,3) t(1) w qa q1 by (simp add: write_returned_def)
qed

theorem slow_client_queues_whole_payload_witness:
  "queued_bytes (stream (run slow_client_events tracked_streaming)) 0 = 196608
   \<and> (\<exists>s. fst (download_fixed example_env itag_request) = Inr s
          \<and> queued_bytes (stream (run_fixed slow_client_events s)) 0 = 196608)"
proof -
  from slow_client_queues_whole_payload obtain s
    where "fst (download_fixed example_env itag_request) = Inr s"
      and "\<forall>taken. queued_bytes (stream (run_fixed slow_client_events s)) taken = 196608 - taken"
    by blast
  then have "fst (download_fixed example_env itag_request) = Inr s
      \<and> queued_bytes (stream (run_fixed slow_client_events s)) 0 = 196608" by simp
  moreover from slow_client_queues_whole_payload
  have "queued_bytes (stream (run slow_client_events tracked_streaming)) 0 = 196608" by blast
  ultimately show ?thesis by blast
qed

end
